theory Spec2Isabelle
  imports Main "HOL-Library.List_Lexorder" "HOL-Library.Product_Lexorder" "HOL-Library.Multiset"
begin

section \<open>JavaScript strings and values\<close>

text \<open>
  The three variants of \<^verbatim>\<open>server.js\<close> are JavaScript. A JavaScript string is a sequence of
  UTF-16 code units; it is modelled as a list of natural numbers, one per code unit, so that
  the byte-order mark U+FEFF, the Unicode white space matched by \<^verbatim>\<open>\s\<close> and the accented
  letters of the source's literals are all representable. \<open>lit\<close> embeds an ASCII literal.
\<close>

type_synonym jsstring = "nat list"

definition lit :: "string \<Rightarrow> jsstring" where
  "lit s = map of_char s"

text \<open>
  A form field, a header or an environment variable is either absent (\<^verbatim>\<open>undefined\<close>, \<open>None\<close>)
  or a string. \<open>truthy\<close> is JavaScript's truthiness on such a value: \<^verbatim>\<open>undefined\<close> and the
  empty string are falsy. \<open>js_or\<close> is \<^verbatim>\<open>a || b\<close>.
\<close>

definition truthy :: "jsstring option \<Rightarrow> bool" where
  "truthy v = (case v of None \<Rightarrow> False | Some s \<Rightarrow> s \<noteq> [])"

definition js_or :: "jsstring option \<Rightarrow> jsstring option \<Rightarrow> jsstring option" where
  "js_or a b = (if truthy a then a else b)"

datatype jsval = JUndefined | JNull | JString jsstring | JNumber nat

definition js_of :: "jsstring option \<Rightarrow> jsval" where
  "js_of v = (case v of None \<Rightarrow> JUndefined | Some s \<Rightarrow> JString s)"

text \<open>\<^verbatim>\<open>v || null\<close> and \<^verbatim>\<open>v || ''\<close>.\<close>

definition or_null :: "jsstring option \<Rightarrow> jsval" where
  "or_null v = (case v of None \<Rightarrow> JNull | Some s \<Rightarrow> if s = [] then JNull else JString s)"

definition or_empty :: "jsstring option \<Rightarrow> jsstring" where
  "or_empty v = (case v of None \<Rightarrow> [] | Some s \<Rightarrow> s)"

definition or_str :: "jsstring option \<Rightarrow> jsstring \<Rightarrow> jsstring" where
  "or_str v d = (case v of None \<Rightarrow> d | Some s \<Rightarrow> if s = [] then d else s)"

text \<open>\<^verbatim>\<open>${v}\<close> inside a template literal: \<^verbatim>\<open>undefined\<close> prints as the word itself.\<close>

definition interp :: "jsstring option \<Rightarrow> jsstring" where
  "interp v = (case v of None \<Rightarrow> lit ''undefined'' | Some s \<Rightarrow> s)"

text \<open>A non-negative integer inside a template literal prints in decimal.\<close>

fun digits10 :: "nat \<Rightarrow> jsstring" where
  "digits10 n = (if n < 10 then [48 + n] else digits10 (n div 10) @ [48 + n mod 10])"

declare digits10.simps [simp del]

text \<open>
  The code units matched by \<^verbatim>\<open>\s\<close> in a regular expression: tab, line feed, vertical tab,
  form feed, carriage return, space, no-break space, U+1680, U+2000 to U+200A, U+2028, U+2029,
  U+202F, U+205F, U+3000 and U+FEFF.
\<close>

definition is_space :: "nat \<Rightarrow> bool" where
  "is_space c \<longleftrightarrow>
     c = 0x09 \<or> c = 0x0A \<or> c = 0x0B \<or> c = 0x0C \<or> c = 0x0D \<or> c = 0x20 \<or> c = 0xA0 \<or>
     c = 0x1680 \<or> (0x2000 \<le> c \<and> c \<le> 0x200A) \<or> c = 0x2028 \<or> c = 0x2029 \<or>
     c = 0x202F \<or> c = 0x205F \<or> c = 0x3000 \<or> c = 0xFEFF"

text \<open>
  \<^verbatim>\<open>s.replace(/\s+/g, '_')\<close>: scanning from the left, each maximal run of white space is
  replaced by one underscore (U+005F).
\<close>

function replace_spaces :: "jsstring \<Rightarrow> jsstring" where
  "replace_spaces [] = []"
| "replace_spaces (c # cs) =
     (if is_space c then 0x5F # replace_spaces (dropWhile is_space cs)
      else c # replace_spaces cs)"
  by pat_completeness auto
termination
  by (relation "measure length") (auto simp: length_dropWhile_le less_Suc_eq_le)

text \<open>\<^verbatim>\<open>s.split(',')[0]\<close>: the part of \<open>s\<close> before its first comma (U+002C).\<close>

definition split_comma_first :: "jsstring \<Rightarrow> jsstring" where
  "split_comma_first s = takeWhile (\<lambda>c. c \<noteq> 0x2C) s"

section \<open>Requests, configuration and the outside world\<close>

text \<open>
  \<open>form_body\<close> is \<^verbatim>\<open>req.body\<close> restricted to the fields the handlers destructure; \<open>upload_file\<close>
  is \<^verbatim>\<open>req.file\<close> as multer's memory storage provides it (\<open>buffer\<close> is always a Buffer object,
  hence truthy). \<open>body req = None\<close> is a request whose \<^verbatim>\<open>req.body\<close> is \<^verbatim>\<open>undefined\<close>. A field
  is text or absent, as the fields of a multipart form are; other values that a JSON body
  could carry (numbers, arrays, objects) are not modelled.
\<close>

record form_body =
  nombre :: "jsstring option"
  email :: "jsstring option"
  telefono :: "jsstring option"
  cargo :: "jsstring option"
  sucursal :: "jsstring option"
  asunto :: "jsstring option"
  mensaje :: "jsstring option"

definition empty_body :: form_body where
  "empty_body = \<lparr>nombre = None, email = None, telefono = None, cargo = None,
                  sucursal = None, asunto = None, mensaje = None\<rparr>"

record upload_file =
  originalname :: jsstring
  mimetype :: jsstring
  buffer :: "nat list"

record request =
  x_forwarded_for :: "jsstring option"
  remoteAddress :: "jsstring option"
  user_agent :: "jsstring option"
  body :: "form_body option"
  req_file :: "upload_file option"

text \<open>The environment variables the handlers read (\<^verbatim>\<open>process.env\<close>).\<close>

record config =
  GOOGLE_FOLDER_ID :: "jsstring option"
  GOOGLE_FOLDER_QUEJAS_ID :: "jsstring option"
  EMAIL_TO :: "jsstring option"
  EMAIL_CC :: "jsstring option"

text \<open>
  Everything a request reads from outside the program and cannot control: the clock, the
  random UUID, and for each external service whether the call returns or throws.
  \<open>files_create_result = None\<close> means \<^verbatim>\<open>drive.files.create\<close> throws, \<open>Some i\<close> that it creates
  the object with identifier \<open>i\<close>. Every handler makes each kind of call at most once, so one
  \<open>extern\<close> record per request is enough.
\<close>

record extern =
  minutes_now :: nat
  date_now :: nat
  iso_now :: jsstring
  random_uuid :: jsstring
  files_create_result :: "jsstring option"
  files_update_ok :: bool
  permissions_create_ok :: bool
  execute_ok :: bool
  sendMail_ok :: bool

datatype table = Postulaciones | Quejas

text \<open>
  The external calls a handler attempts, with the arguments the claims are about. The HTML
  body of a mail is not recorded: no property stated below depends on it. An \<open>event\<close> is
  one attempted call together with how it ended: it returned, or it threw.
\<close>

datatype call =
    FilesCreate jsstring jsstring "nat list" "jsval list option"
  | FilesUpdate jsstring jsval
  | PermissionsCreate jsstring
  | Insert table "string list" "jsval list"
  | SelectPostulaciones
  | SendMail "jsstring option list" "jsstring option" jsstring

datatype event = Returned call | Threw call

fun call_of :: "event \<Rightarrow> call" where
  "call_of (Returned c) = c"
| "call_of (Threw c) = c"

fun is_threw :: "event \<Rightarrow> bool" where
  "is_threw (Threw _) = True"
| "is_threw (Returned _) = False"

fun is_drive_call :: "call \<Rightarrow> bool" where
  "is_drive_call (FilesCreate _ _ _ _) = True"
| "is_drive_call (FilesUpdate _ _) = True"
| "is_drive_call (PermissionsCreate _) = True"
| "is_drive_call _ = False"

fun is_mail_call :: "call \<Rightarrow> bool" where
  "is_mail_call (SendMail _ _ _) = True"
| "is_mail_call _ = False"

type_synonym row = "(string \<times> jsval) list"

text \<open>
  The state outside a single request: the trace of external calls attempted so far (oldest
  first), the two tables of the record store with their \<^verbatim>\<open>AUTOINCREMENT\<close> sequences, and the
  rate limiter's \<^verbatim>\<open>hits\<close> map (variant 1 only).
\<close>

record world =
  trace :: "event list"
  postulaciones :: "row list"
  quejas :: "row list"
  seq_postulaciones :: nat
  seq_quejas :: nat
  hits :: "jsstring \<rightharpoonup> nat"

text \<open>The events a step added to the trace, given the world before and after it.\<close>

definition new_events :: "world \<Rightarrow> world \<Rightarrow> event list" where
  "new_events w w' = drop (length (trace w)) (trace w')"

definition rows_of :: "table \<Rightarrow> world \<Rightarrow> row list" where
  "rows_of t w = (case t of Postulaciones \<Rightarrow> postulaciones w | Quejas \<Rightarrow> quejas w)"

definition col :: "row \<Rightarrow> string \<Rightarrow> jsval" where
  "col r c = (case map_of r c of None \<Rightarrow> JUndefined | Some v \<Rightarrow> v)"

subsection \<open>Awaited calls\<close>

text \<open>
  An awaited call either returns a value or throws; either way the world may have changed.
  \<open>None\<close> is the thrown exception, which every handler catches in one outermost
  \<^verbatim>\<open>try/catch\<close>. \<open>and_then\<close> sequences two awaited steps: the second runs only when the first
  returned.
\<close>

type_synonym 'a io = "world \<Rightarrow> 'a option \<times> world"

definition ret :: "'a \<Rightarrow> 'a io" where
  "ret x w = (Some x, w)"

definition and_then :: "'a io \<Rightarrow> ('a \<Rightarrow> 'b io) \<Rightarrow> 'b io" where
  "and_then m f w = (case m w of (None, w') \<Rightarrow> (None, w') | (Some x, w') \<Rightarrow> f x w')"

definition attempt :: "call \<Rightarrow> 'a option \<Rightarrow> 'a io" where
  "attempt c outcome w =
     (outcome, w\<lparr>trace := trace w @ [case outcome of None \<Rightarrow> Threw c | Some _ \<Rightarrow> Returned c]\<rparr>)"

definition ok_unit :: "bool \<Rightarrow> unit option" where
  "ok_unit b = (if b then Some () else None)"

definition files_create ::
  "extern \<Rightarrow> jsstring \<Rightarrow> jsstring \<Rightarrow> nat list \<Rightarrow> jsval list option \<Rightarrow> jsstring io" where
  "files_create ora name mime bytes parents =
     attempt (FilesCreate name mime bytes parents) (files_create_result ora)"

definition files_update :: "extern \<Rightarrow> jsstring \<Rightarrow> jsval \<Rightarrow> unit io" where
  "files_update ora fileId addParents =
     attempt (FilesUpdate fileId addParents) (ok_unit (files_update_ok ora))"

definition permissions_create :: "extern \<Rightarrow> jsstring \<Rightarrow> unit io" where
  "permissions_create ora fileId =
     attempt (PermissionsCreate fileId) (ok_unit (permissions_create_ok ora))"

definition transporter_sendMail ::
  "extern \<Rightarrow> jsstring option list \<Rightarrow> jsstring option \<Rightarrow> jsstring \<Rightarrow> unit io" where
  "transporter_sendMail ora to cc subject =
     attempt (SendMail to cc subject) (ok_unit (sendMail_ok ora))"

text \<open>
  The record store. A table is the list of its rows in insertion order; a row pairs each
  column of the \<^verbatim>\<open>INSERT\<close> with its argument. When the statement names no \<^verbatim>\<open>id\<close> column the
  store assigns one from the table's sequence, as the
  \<^verbatim>\<open>id INTEGER PRIMARY KEY AUTOINCREMENT\<close> of variant 3's \<^verbatim>\<open>CREATE TABLE\<close> says; variant 1
  passes its own \<^verbatim>\<open>id\<close>. A statement that throws stores nothing.

  Only variant 3 declares its tables in the source. Variant 1's tables are stored as its
  \<^verbatim>\<open>INSERT\<close> writes them, with no constraint on the \<^verbatim>\<open>id\<close> it passes. Variant 2's \<^verbatim>\<open>INSERT\<close>
  names no \<^verbatim>\<open>id\<close> column either, so its rows pass through the same sequence as variant 3's;
  nothing is stated below about the identifiers of variant 2.

  Whether the statement returns is an outside event (\<open>execute_ok\<close>), whatever its arguments
  are. This admits more than the client library does: the library throws when an argument is
  \<^verbatim>\<open>undefined\<close> (a field absent from the body, in variants 2 and 3), so for such arguments
  only the runs with \<open>execute_ok = False\<close> occur in the program.
\<close>

definition store_row :: "table \<Rightarrow> row \<Rightarrow> world \<Rightarrow> world" where
  "store_row t r w =
     (case t of
        Postulaciones \<Rightarrow>
          if ''id'' \<in> set (map fst r) then w\<lparr>postulaciones := postulaciones w @ [r]\<rparr>
          else w\<lparr>postulaciones := postulaciones w @ [(''id'', JNumber (seq_postulaciones w + 1)) # r],
                 seq_postulaciones := seq_postulaciones w + 1\<rparr>
      | Quejas \<Rightarrow>
          if ''id'' \<in> set (map fst r) then w\<lparr>quejas := quejas w @ [r]\<rparr>
          else w\<lparr>quejas := quejas w @ [(''id'', JNumber (seq_quejas w + 1)) # r],
                 seq_quejas := seq_quejas w + 1\<rparr>)"

definition execute_insert :: "extern \<Rightarrow> table \<Rightarrow> string list \<Rightarrow> jsval list \<Rightarrow> unit io" where
  "execute_insert ora t cols args =
     and_then (attempt (Insert t cols args) (ok_unit (execute_ok ora)))
       (\<lambda>_ w. (Some (), store_row t (zip cols args) w))"

text \<open>
  \<^verbatim>\<open>SELECT * FROM postulaciones ORDER BY fecha_envio DESC\<close>. The store compares \<^verbatim>\<open>NULL\<close>
  below numbers below text, and text code unit by code unit. Rows with equal keys come out
  in the order of their insertion: \<open>sort_key\<close> is stable, so sorting the reversed table and
  reversing the result keeps, among equal keys, the table's own order.
\<close>

definition sql_order_key :: "jsval \<Rightarrow> nat \<times> nat list" where
  "sql_order_key v =
     (case v of JUndefined \<Rightarrow> (0, []) | JNull \<Rightarrow> (0, []) | JNumber n \<Rightarrow> (1, [n])
      | JString s \<Rightarrow> (2, s))"

definition fecha_key :: "row \<Rightarrow> nat \<times> nat list" where
  "fecha_key r = sql_order_key (col r ''fecha_envio'')"

definition order_by_fecha_envio_desc :: "row list \<Rightarrow> row list" where
  "order_by_fecha_envio_desc rs = rev (sort_key fecha_key (rev rs))"

definition execute_select :: "extern \<Rightarrow> row list io" where
  "execute_select ora =
     and_then (attempt SelectPostulaciones (ok_unit (execute_ok ora)))
       (\<lambda>_ w. (Some (order_by_fecha_envio_desc (postulaciones w)), w))"

text \<open>
  A specification of steps, used in the proofs only: \<open>only_adds P m\<close> says that \<open>m\<close> changes
  nothing in the world but the trace, to which it adds events of calls satisfying \<open>P\<close>, and
  that it throws exactly when one of the calls it added threw.
\<close>

definition only_adds :: "(call \<Rightarrow> bool) \<Rightarrow> 'a io \<Rightarrow> bool" where
  "only_adds P m \<longleftrightarrow>
     (\<forall>w. \<exists>es. snd (m w) = w\<lparr>trace := trace w @ es\<rparr>
              \<and> list_all (\<lambda>e. P (call_of e)) es
              \<and> (fst (m w) = None \<longleftrightarrow> list_ex is_threw es))"

subsection \<open>Responses\<close>

datatype resp_body = SendText jsstring | SendJson bool jsstring

record response =
  status :: nat
  payload :: resp_body

definition send :: "nat \<Rightarrow> jsstring \<Rightarrow> response" where
  "send code text = \<lparr>status = code, payload = SendText text\<rparr>"

definition json :: "nat \<Rightarrow> bool \<Rightarrow> jsstring \<Rightarrow> response" where
  "json code ok message = \<lparr>status = code, payload = SendJson ok message\<rparr>"

text \<open>
  \<^verbatim>\<open>req.headers['x-forwarded-for']?.toString().split(',')[0] || req.socket.remoteAddress\<close>,
  the common prefix of the three places that compute the client address.
\<close>

definition client_ip :: "request \<Rightarrow> jsstring option" where
  "client_ip req = js_or (map_option split_comma_first (x_forwarded_for req)) (remoteAddress req)"

text \<open>The public link of an uploaded object.\<close>

definition drive_url :: "jsstring \<Rightarrow> jsstring" where
  "drive_url fileId = lit ''https://drive.google.com/file/d/'' @ fileId @ lit ''/view''"

section \<open>Variant 1\<close>

subsection \<open>The rate limiter\<close>

text \<open>
  The middleware in front of every route of variant 1. The key is the client address (or
  \<^verbatim>\<open>'unknown'\<close>), a colon and the minute of the hour; the counter is stored before it is
  compared with 60. \<open>Throttled\<close> is the 429 response sent without calling \<^verbatim>\<open>next()\<close>. Counters
  are natural numbers: JavaScript's numbers count exactly up to \<open>2 ^ 53\<close>, far beyond what a
  process can receive.
\<close>

datatype decision = Next | Throttled

definition limiter_key :: "nat \<Rightarrow> request \<Rightarrow> jsstring" where
  "limiter_key minutes req =
     or_str (client_ip req) (lit ''unknown'') @ lit '':'' @ digits10 minutes"

text \<open>\<^verbatim>\<open>hits.get(k) || 0\<close>.\<close>

definition hit_count :: "(jsstring \<rightharpoonup> nat) \<Rightarrow> jsstring \<Rightarrow> nat" where
  "hit_count h k = (case h k of None \<Rightarrow> 0 | Some n \<Rightarrow> n)"

definition rate_limit ::
  "nat \<Rightarrow> request \<Rightarrow> (jsstring \<rightharpoonup> nat) \<Rightarrow> decision \<times> (jsstring \<rightharpoonup> nat)" where
  "rate_limit minutes req h =
     (let k = limiter_key minutes req;
          h' = h(k \<mapsto> hit_count h k + 1)
      in ((case h' k of None \<Rightarrow> Next | Some n \<Rightarrow> if n > 60 then Throttled else Next), h'))"

subsection \<open>The two submission handlers\<close>

text \<open>
  \<open>uploadToDrive\<close> returns the pair \<^verbatim>\<open>{ id, url }\<close>; the handlers read it as \<^verbatim>\<open>up.id\<close> and
  \<^verbatim>\<open>up.url\<close> (\<open>fst up\<close> and \<open>snd up\<close>), and use \<^verbatim>\<open>null\<close> for both without an attachment. Its
  guard \<^verbatim>\<open>if (!buffer)\<close> never fires on a Buffer object and is left out.
\<close>

definition uploadToDrive ::
  "extern \<Rightarrow> nat list \<Rightarrow> jsstring \<Rightarrow> jsstring \<Rightarrow> jsval \<Rightarrow> (jsval \<times> jsval) io" where
  "uploadToDrive ora buf filename mime parentFolderId =
     and_then (files_create ora filename mime buf (Some [parentFolderId]))
       (\<lambda>fileId. and_then (permissions_create ora fileId)
          (\<lambda>_. ret (JString fileId, JString (drive_url fileId))))"

definition sendMail :: "config \<Rightarrow> extern \<Rightarrow> jsstring \<Rightarrow> unit io" where
  "sendMail cfg ora subject =
     transporter_sendMail ora [EMAIL_TO cfg] (Some (or_empty (EMAIL_CC cfg))) subject"

definition cols_postulaciones_v1 :: "string list" where
  "cols_postulaciones_v1 =
     [''id'', ''nombre'', ''email'', ''telefono'', ''cargo'', ''mensaje'',
      ''drive_file_id'', ''drive_file_url'', ''ip'', ''user_agent'']"

definition cols_quejas_v1 :: "string list" where
  "cols_quejas_v1 =
     [''id'', ''nombre'', ''email'', ''telefono'', ''sucursal'', ''asunto'', ''mensaje'',
      ''drive_file_id'', ''drive_file_url'', ''ip'', ''user_agent'']"

definition formulario_v1 :: "config \<Rightarrow> extern \<Rightarrow> request \<Rightarrow> world \<Rightarrow> response \<times> world" where
  "formulario_v1 cfg ora req w =
     (let b = (case body req of None \<Rightarrow> empty_body | Some b \<Rightarrow> b);
          mensaje_d = (case mensaje b of None \<Rightarrow> [] | Some m \<Rightarrow> m)
      in if \<not> truthy (nombre b) \<or> \<not> truthy (email b) \<or> \<not> truthy (telefono b)
            \<or> \<not> truthy (cargo b)
         then (send 400 (lit ''Faltan campos obligatorios.''), w)
         else
           (case and_then
                   (case req_file req of
                      None \<Rightarrow> ret (JNull, JNull)
                    | Some f \<Rightarrow>
                        uploadToDrive ora (buffer f)
                          (lit ''HV_'' @ replace_spaces (or_empty (nombre b)) @ lit ''_''
                             @ digits10 (date_now ora))
                          (mimetype f) (js_of (GOOGLE_FOLDER_ID cfg)))
                   (\<lambda>up.
                      and_then
                        (execute_insert ora Postulaciones cols_postulaciones_v1
                           [JString (random_uuid ora), js_of (nombre b), js_of (email b),
                            js_of (telefono b), js_of (cargo b), JString mensaje_d,
                            fst up, snd up,
                            or_null (client_ip req), or_null (user_agent req)])
                        (\<lambda>_. sendMail cfg ora
                                (lit ''Nueva postulaci'' @ [0xF3] @ lit ''n: '' @ interp (nombre b)
                                   @ lit '' '' @ [0x2022] @ lit '' '' @ interp (cargo b)))) w
            of (None, w') \<Rightarrow> (send 500 (lit ''Error del servidor.''), w')
             | (Some _, w') \<Rightarrow> (send 200 (lit ''OK''), w')))"

definition quejas_v1 :: "config \<Rightarrow> extern \<Rightarrow> request \<Rightarrow> world \<Rightarrow> response \<times> world" where
  "quejas_v1 cfg ora req w =
     (let b = (case body req of None \<Rightarrow> empty_body | Some b \<Rightarrow> b)
      in if \<not> truthy (nombre b) \<or> \<not> truthy (email b) \<or> \<not> truthy (telefono b)
            \<or> \<not> truthy (sucursal b) \<or> \<not> truthy (asunto b) \<or> \<not> truthy (mensaje b)
         then (send 400 (lit ''Faltan campos obligatorios.''), w)
         else
           (case and_then
                   (case req_file req of
                      None \<Rightarrow> ret (JNull, JNull)
                    | Some f \<Rightarrow>
                        uploadToDrive ora (buffer f)
                          (lit ''QUEJA_'' @ replace_spaces (or_empty (nombre b)) @ lit ''_''
                             @ digits10 (date_now ora))
                          (mimetype f)
                          (js_of (js_or (GOOGLE_FOLDER_QUEJAS_ID cfg) (GOOGLE_FOLDER_ID cfg))))
                   (\<lambda>up.
                      and_then
                        (execute_insert ora Quejas cols_quejas_v1
                           [JString (random_uuid ora), js_of (nombre b), js_of (email b),
                            js_of (telefono b), js_of (sucursal b), js_of (asunto b),
                            js_of (mensaje b), fst up, snd up,
                            or_null (client_ip req), or_null (user_agent req)])
                        (\<lambda>_. sendMail cfg ora
                                (lit ''Nuevo mensaje ('' @ interp (asunto b) @ lit '') de ''
                                   @ interp (nombre b)))) w
            of (None, w') \<Rightarrow> (send 500 (lit ''Error del servidor.''), w')
             | (Some _, w') \<Rightarrow> (send 200 (lit ''OK''), w')))"

section \<open>Variant 2\<close>

text \<open>
  Variants 2 and 3 destructure \<^verbatim>\<open>req.body\<close> without a default, inside the \<^verbatim>\<open>try\<close>: an
  \<^verbatim>\<open>undefined\<close> body throws and the handler answers 500. Neither checks any field; variant 2's
  job-application handler requires the attachment instead.
\<close>

definition enviarCorreo :: "extern \<Rightarrow> jsstring option list \<Rightarrow> jsstring \<Rightarrow> unit io" where
  "enviarCorreo ora to subject = transporter_sendMail ora to None subject"

definition cols_postulaciones :: "string list" where
  "cols_postulaciones =
     [''nombre'', ''email'', ''telefono'', ''cargo'', ''mensaje'', ''archivo_url'',
      ''fecha_envio'']"

definition cols_quejas :: "string list" where
  "cols_quejas =
     [''nombre'', ''email'', ''telefono'', ''sucursal'', ''asunto'', ''mensaje'',
      ''archivo_url'', ''fecha_envio'']"

definition formulario_v2 :: "config \<Rightarrow> extern \<Rightarrow> request \<Rightarrow> world \<Rightarrow> response \<times> world" where
  "formulario_v2 cfg ora req w =
     (case body req of
        None \<Rightarrow> (send 500 (lit ''Error al procesar el formulario.''), w)
      | Some b \<Rightarrow>
          (case req_file req of
             None \<Rightarrow> (send 400 (lit ''Archivo requerido.''), w)
           | Some archivo \<Rightarrow>
               (case and_then
                       (files_create ora (originalname archivo) (mimetype archivo)
                          (buffer archivo) None)
                       (\<lambda>fileId.
                          and_then (files_update ora fileId (js_of (GOOGLE_FOLDER_ID cfg)))
                            (\<lambda>_. and_then (permissions_create ora fileId)
                               (\<lambda>_. and_then
                                  (execute_insert ora Postulaciones cols_postulaciones
                                     [js_of (nombre b), js_of (email b), js_of (telefono b),
                                      js_of (cargo b), JString (or_empty (mensaje b)),
                                      JString (drive_url fileId), JString (iso_now ora)])
                                  (\<lambda>_. enviarCorreo ora
                                          (filter truthy [EMAIL_TO cfg, EMAIL_CC cfg])
                                          ([0xD83D, 0xDCE9] @ lit '' Nueva postulaci'' @ [0xF3]
                                             @ lit ''n - '' @ interp (nombre b)))))) w
                of (None, w') \<Rightarrow> (send 500 (lit ''Error al procesar el formulario.''), w')
                 | (Some _, w') \<Rightarrow>
                     (send 200 (lit ''Formulario enviado con '' @ [0xE9] @ lit ''xito.''), w'))))"

definition quejas_v2 :: "config \<Rightarrow> extern \<Rightarrow> request \<Rightarrow> world \<Rightarrow> response \<times> world" where
  "quejas_v2 cfg ora req w =
     (case body req of
        None \<Rightarrow> (send 500 ([0x274C] @ lit '' Error al enviar la queja.''), w)
      | Some b \<Rightarrow>
          (case and_then
                  (case req_file req of
                     None \<Rightarrow> ret []
                   | Some archivo \<Rightarrow>
                       and_then
                         (files_create ora (originalname archivo) (mimetype archivo)
                            (buffer archivo) None)
                         (\<lambda>fileId.
                            and_then
                              (files_update ora fileId
                                 (js_of (js_or (GOOGLE_FOLDER_QUEJAS_ID cfg)
                                           (GOOGLE_FOLDER_ID cfg))))
                              (\<lambda>_. and_then (permissions_create ora fileId)
                                 (\<lambda>_. ret (drive_url fileId)))))
                  (\<lambda>fileUrl.
                     and_then
                       (execute_insert ora Quejas cols_quejas
                          [js_of (nombre b), js_of (email b), js_of (telefono b),
                           js_of (sucursal b), js_of (asunto b), JString (or_empty (mensaje b)),
                           JString fileUrl, JString (iso_now ora)])
                       (\<lambda>_. enviarCorreo ora (filter truthy [EMAIL_TO cfg, EMAIL_CC cfg])
                               (lit ''[QUEJA] '' @ interp (asunto b) @ lit '' - ''
                                  @ interp (nombre b)))) w
           of (None, w') \<Rightarrow> (send 500 ([0x274C] @ lit '' Error al enviar la queja.''), w')
            | (Some _, w') \<Rightarrow>
                (send 200 ([0x2705] @ lit '' Queja enviada con '' @ [0xE9] @ lit ''xito''), w')))"

section \<open>Variant 3\<close>

definition FOLDER_POSTULACIONES :: "config \<Rightarrow> jsstring option" where
  "FOLDER_POSTULACIONES cfg = GOOGLE_FOLDER_ID cfg"

definition FOLDER_QUEJAS :: "config \<Rightarrow> jsstring option" where
  "FOLDER_QUEJAS cfg = js_or (GOOGLE_FOLDER_QUEJAS_ID cfg) (FOLDER_POSTULACIONES cfg)"

definition subirAStorageDrive :: "extern \<Rightarrow> upload_file \<Rightarrow> jsstring option \<Rightarrow> jsstring io" where
  "subirAStorageDrive ora f folderId =
     and_then (files_create ora (originalname f) (mimetype f) (buffer f) None)
       (\<lambda>fileId.
          and_then (if truthy folderId then files_update ora fileId (js_of folderId) else ret ())
            (\<lambda>_. and_then (permissions_create ora fileId) (\<lambda>_. ret (drive_url fileId))))"

definition formulario_v3 :: "config \<Rightarrow> extern \<Rightarrow> request \<Rightarrow> world \<Rightarrow> response \<times> world" where
  "formulario_v3 cfg ora req w =
     (case body req of
        None \<Rightarrow> (json 500 False (lit ''Error al procesar el formulario.''), w)
      | Some b \<Rightarrow>
          (case and_then
                  (case req_file req of
                     None \<Rightarrow> ret []
                   | Some f \<Rightarrow> subirAStorageDrive ora f (FOLDER_POSTULACIONES cfg))
                  (\<lambda>fileUrl.
                     and_then
                       (execute_insert ora Postulaciones cols_postulaciones
                          [js_of (nombre b), js_of (email b), js_of (telefono b),
                           js_of (cargo b), JString (or_empty (mensaje b)),
                           JString fileUrl, JString (iso_now ora)])
                       (\<lambda>_. if truthy (EMAIL_TO cfg)
                             then enviarCorreo ora (filter truthy [EMAIL_TO cfg, EMAIL_CC cfg])
                                    ([0xD83D, 0xDCE9] @ lit '' Nueva postulaci'' @ [0xF3]
                                       @ lit ''n - '' @ or_str (nombre b) (lit ''Sin nombre''))
                             else ret ())) w
           of (None, w') \<Rightarrow> (json 500 False (lit ''Error al procesar el formulario.''), w')
            | (Some _, w') \<Rightarrow>
                (json 200 True (lit ''Formulario enviado con '' @ [0xE9] @ lit ''xito.''), w')))"

definition quejas_v3 :: "config \<Rightarrow> extern \<Rightarrow> request \<Rightarrow> world \<Rightarrow> response \<times> world" where
  "quejas_v3 cfg ora req w =
     (case body req of
        None \<Rightarrow> (json 500 False ([0x274C] @ lit '' Error al enviar la queja.''), w)
      | Some b \<Rightarrow>
          (case and_then
                  (case req_file req of
                     None \<Rightarrow> ret []
                   | Some f \<Rightarrow> subirAStorageDrive ora f (FOLDER_QUEJAS cfg))
                  (\<lambda>fileUrl.
                     and_then
                       (execute_insert ora Quejas cols_quejas
                          [js_of (nombre b), js_of (email b), js_of (telefono b),
                           js_of (sucursal b), js_of (asunto b), JString (or_empty (mensaje b)),
                           JString fileUrl, JString (iso_now ora)])
                       (\<lambda>_. if truthy (EMAIL_TO cfg)
                             then enviarCorreo ora (filter truthy [EMAIL_TO cfg, EMAIL_CC cfg])
                                    (lit ''[QUEJA] '' @ or_str (asunto b) (lit ''(Sin asunto)'')
                                       @ lit '' - '' @ or_str (nombre b) (lit ''Usuario''))
                             else ret ())) w
           of (None, w') \<Rightarrow> (json 500 False ([0x274C] @ lit '' Error al enviar la queja.''), w')
            | (Some _, w') \<Rightarrow>
                (json 200 True ([0x2705] @ lit '' Queja enviada con '' @ [0xE9] @ lit ''xito''),
                 w')))"

section \<open>The report export (variants 2 and 3)\<close>

text \<open>
  \<^verbatim>\<open>GET /api/descargar-postulaciones\<close> has the same code in variants 2 and 3. Two library
  functions it calls are outside the repository and are parameters here:
  \<open>toLocaleString\<close> formats the date column, and \<open>parse fields delimiter data\<close> is the
  json2csv parser constructed with the given column names and delimiter, applied to the
  data. A data object is the list of its properties in insertion order.
\<close>

type_synonym csv_object = "(jsstring \<times> jsval) list"

definition dataLimpia :: "(jsval \<Rightarrow> jsstring) \<Rightarrow> row \<Rightarrow> csv_object" where
  "dataLimpia toLocaleString r =
     [(lit ''Nombre'', col r ''nombre''),
      (lit ''Correo'', col r ''email''),
      (lit ''Tel'' @ [0xE9] @ lit ''fono'', col r ''telefono''),
      (lit ''Cargo'', col r ''cargo''),
      (lit ''Mensaje'', col r ''mensaje''),
      (lit ''Archivo (Google Drive)'', col r ''archivo_url''),
      (lit ''Fecha de Env'' @ [0xED] @ lit ''o'', JString (toLocaleString (col r ''fecha_envio'')))]"

definition bom :: jsstring where
  "bom = [0xFEFF]"

definition descargar_postulaciones ::
  "(jsval \<Rightarrow> jsstring) \<Rightarrow> (jsstring list \<Rightarrow> jsstring \<Rightarrow> csv_object list \<Rightarrow> jsstring)
     \<Rightarrow> extern \<Rightarrow> world \<Rightarrow> response \<times> world" where
  "descargar_postulaciones toLocaleString parse ora w =
     (case execute_select ora w of
        (None, w') \<Rightarrow> (send 500 (lit ''Error al generar el archivo.''), w')
      | (Some registros, w') \<Rightarrow>
          if registros = [] then (send 404 (lit ''No hay postulaciones registradas.''), w')
          else
            (let data = map (dataLimpia toLocaleString) registros;
                 csv = parse (map fst (hd data)) (lit '';'') data
             in (send 200 (bom @ csv), w')))"

section \<open>The three variants side by side\<close>

datatype variant = V1 | V2 | V3

datatype kind = JobApplication | Complaint

fun submit ::
  "variant \<Rightarrow> kind \<Rightarrow> config \<Rightarrow> extern \<Rightarrow> request \<Rightarrow> world \<Rightarrow> response \<times> world" where
  "submit V1 JobApplication = formulario_v1"
| "submit V1 Complaint = quejas_v1"
| "submit V2 JobApplication = formulario_v2"
| "submit V2 Complaint = quejas_v2"
| "submit V3 JobApplication = formulario_v3"
| "submit V3 Complaint = quejas_v3"

fun table_of :: "kind \<Rightarrow> table" where
  "table_of JobApplication = Postulaciones"
| "table_of Complaint = Quejas"


text \<open>
  The fields variant 1 checks before doing anything else: four for a job application, six
  for a complaint. \<open>missing_required\<close> holds when one of them is absent or empty (an absent
  body lacks them all).
\<close>

fun required_fields :: "kind \<Rightarrow> (form_body \<Rightarrow> jsstring option) list" where
  "required_fields JobApplication = [nombre, email, telefono, cargo]"
| "required_fields Complaint = [nombre, email, telefono, sucursal, asunto, mensaje]"

definition missing_required :: "kind \<Rightarrow> request \<Rightarrow> bool" where
  "missing_required k req =
     (case body req of
        None \<Rightarrow> True
      | Some b \<Rightarrow> list_ex (\<lambda>f. \<not> truthy (f b)) (required_fields k))"

definition seq_of :: "table \<Rightarrow> world \<Rightarrow> nat" where
  "seq_of t w = (case t of Postulaciones \<Rightarrow> seq_postulaciones w | Quejas \<Rightarrow> seq_quejas w)"

subsection \<open>A summary of every handler, used in the proofs\<close>

text \<open>
  The six handlers have the same shape, and the theorems below are derived from one
  description of it, proved of each handler. \<open>upload_facts\<close> describes the events \<open>des\<close> of
  the upload step: none without an attachment, otherwise first the creation of the object
  under the name the variant gives it. \<open>row_facts\<close> describes the row handed to the store.
  \<open>summary\<close> lists the four ways a request can end: refused before any call; the upload
  threw; the \<^verbatim>\<open>INSERT\<close> threw; the row was stored and the mail step followed.
\<close>

definition object_name :: "variant \<Rightarrow> kind \<Rightarrow> extern \<Rightarrow> request \<Rightarrow> upload_file \<Rightarrow> jsstring" where
  "object_name v k ora req f =
     (if v = V1
      then (case k of JobApplication \<Rightarrow> lit ''HV'' | Complaint \<Rightarrow> lit ''QUEJA'') @ lit ''_''
             @ replace_spaces (case body req of None \<Rightarrow> [] | Some b \<Rightarrow> or_empty (nombre b))
             @ lit ''_'' @ digits10 (date_now ora)
      else originalname f)"

definition upload_facts ::
  "variant \<Rightarrow> kind \<Rightarrow> extern \<Rightarrow> request \<Rightarrow> event list \<Rightarrow> bool" where
  "upload_facts v k ora req des \<longleftrightarrow>
     (case req_file req of
        None \<Rightarrow> des = []
      | Some f \<Rightarrow>
          (\<exists>ev rest parents. des = ev # rest
             \<and> call_of ev = FilesCreate (object_name v k ora req f) (mimetype f) (buffer f) parents))"

definition row_facts :: "variant \<Rightarrow> kind \<Rightarrow> extern \<Rightarrow> request \<Rightarrow> row \<Rightarrow> bool" where
  "row_facts v k ora req r \<longleftrightarrow>
     (if v = V1 then map_of r ''id'' = Some (JString (random_uuid ora))
      else ''id'' \<notin> set (map fst r))
     \<and> (k = JobApplication \<longrightarrow>
          (\<exists>b. body req = Some b \<and> map_of r ''mensaje'' = Some (JString (or_empty (mensaje b)))))
     \<and> (req_file req = None \<longrightarrow>
          (if v = V1
           then map_of r ''drive_file_url'' = Some JNull \<and> map_of r ''drive_file_id'' = Some JNull
           else map_of r ''archivo_url'' = Some (JString [])))"

text \<open>The status with which a handler answers before any external call, if it does.\<close>

definition refusal :: "variant \<Rightarrow> kind \<Rightarrow> request \<Rightarrow> nat option" where
  "refusal v k req =
     (if v = V1 then (if missing_required k req then Some 400 else None)
      else if body req = None then Some 500
      else if v = V2 \<and> k = JobApplication \<and> req_file req = None then Some 400
      else None)"

definition summary ::
  "variant \<Rightarrow> kind \<Rightarrow> extern \<Rightarrow> request \<Rightarrow> world \<Rightarrow> response \<Rightarrow> world \<Rightarrow> bool" where
  "summary v k ora req w r w' \<longleftrightarrow>
     (\<exists>c. refusal v k req = Some c \<and> status r = c \<and> w' = w)
     \<or> (\<exists>des. refusal v k req = None \<and> req_file req \<noteq> None \<and> upload_facts v k ora req des
            \<and> list_all (\<lambda>e. is_drive_call (call_of e)) des \<and> list_ex is_threw des
            \<and> w' = w\<lparr>trace := trace w @ des\<rparr> \<and> status r = 500)
     \<or> (\<exists>des cols args. refusal v k req = None \<and> \<not> execute_ok ora \<and> upload_facts v k ora req des
            \<and> list_all (\<lambda>e. is_drive_call (call_of e)) des \<and> \<not> list_ex is_threw des
            \<and> w' = w\<lparr>trace := trace w @ des @ [Threw (Insert (table_of k) cols args)]\<rparr>
            \<and> status r = 500)
     \<or> (\<exists>des cols args mes. refusal v k req = None \<and> execute_ok ora \<and> upload_facts v k ora req des
            \<and> list_all (\<lambda>e. is_drive_call (call_of e)) des \<and> \<not> list_ex is_threw des
            \<and> list_all (\<lambda>e. is_mail_call (call_of e)) mes
            \<and> row_facts v k ora req (zip cols args)
            \<and> w' = (store_row (table_of k) (zip cols args) w)
                     \<lparr>trace := trace w @ des @ Returned (Insert (table_of k) cols args) # mes\<rparr>
            \<and> status r = (if list_ex is_threw mes then 500 else 200))"

section \<open>Variant 1 as an application\<close>

text \<open>
  Variant 1 puts the rate limiter in front of its routes, and multer's
  \<^verbatim>\<open>upload.single('archivo')\<close>, configured with a file filter and a size limit of 10 MB, in
  front of each handler. Here \<open>req_file\<close> of the incoming request is the file part the
  client sent, and \<open>upload_single\<close> gives the request as the handler receives it.

  multer hands the file to the filter with a callback \<^verbatim>\<open>cb(error, acceptFile)\<close>. The filter
  of the source calls \<^verbatim>\<open>cb(ok ? null : new Error(...))\<close>: for a media type outside the
  whitelist it passes an error, which multer hands to the framework (\<open>MulterError\<close>); for a
  whitelisted type it passes \<^verbatim>\<open>null\<close> and no second argument, so that \<^verbatim>\<open>acceptFile\<close> is
  \<^verbatim>\<open>undefined\<close>. \<open>fileFilter\<close> returns the two arguments of the callback: whether an error was
  passed, and whether \<^verbatim>\<open>acceptFile\<close> is truthy. A file that is not accepted is skipped by
  multer: the handler runs with \<^verbatim>\<open>req.file\<close> undefined. The size limit applies to a file
  that is being stored, which never happens with this filter; the branch is kept as multer
  has it.

  A request for any other route leaves the program's own code (\<open>Unrouted\<close>). Variants 2 and 3
  configure multer without filter or limit: there the handler receives the file as sent.
\<close>

datatype route = PostFormulario | PostQuejas | OtherRoute

datatype outcome = Responded response | MulterError | Unrouted

definition allowed_mimetypes :: "jsstring list" where
  "allowed_mimetypes =
     [lit ''application/pdf'',
      lit ''application/msword'',
      lit ''application/vnd.openxmlformats-officedocument.wordprocessingml.document'',
      lit ''image/jpeg'',
      lit ''image/png'']"

definition fileFilter :: "upload_file \<Rightarrow> bool \<times> bool" where
  "fileFilter f = (let ok = mimetype f \<in> set allowed_mimetypes in (\<not> ok, False))"

definition upload_single :: "request \<Rightarrow> request option" where
  "upload_single req =
     (case req_file req of
        None \<Rightarrow> Some req
      | Some f \<Rightarrow>
          (case fileFilter f of
             (error, acceptFile) \<Rightarrow>
               if error then None
               else if \<not> acceptFile then Some (req\<lparr>req_file := None\<rparr>)
               else if length (buffer f) \<le> 10 * 1024 * 1024 then Some req
               else None))"

definition routes_v1 ::
  "config \<Rightarrow> extern \<Rightarrow> route \<Rightarrow> request \<Rightarrow> world \<Rightarrow> outcome \<times> world" where
  "routes_v1 cfg ora rt req w =
     (case rt of
        PostFormulario \<Rightarrow>
          (case upload_single req of
             None \<Rightarrow> (MulterError, w)
           | Some req' \<Rightarrow> (case formulario_v1 cfg ora req' w of (r, w') \<Rightarrow> (Responded r, w')))
      | PostQuejas \<Rightarrow>
          (case upload_single req of
             None \<Rightarrow> (MulterError, w)
           | Some req' \<Rightarrow> (case quejas_v1 cfg ora req' w of (r, w') \<Rightarrow> (Responded r, w')))
      | OtherRoute \<Rightarrow> (Unrouted, w))"

definition too_many :: response where
  "too_many = send 429 (lit ''Demasiadas solicitudes. Intenta en 1 minuto.'')"

definition app_v1 ::
  "config \<Rightarrow> extern \<Rightarrow> route \<Rightarrow> request \<Rightarrow> world \<Rightarrow> outcome \<times> world" where
  "app_v1 cfg ora rt req w =
     (case rate_limit (minutes_now ora) req (hits w) of
        (Throttled, h') \<Rightarrow> (Responded too_many, w\<lparr>hits := h'\<rparr>)
      | (Next, h') \<Rightarrow> routes_v1 cfg ora rt req (w\<lparr>hits := h'\<rparr>))"



section \<open>Sample inputs\<close>

text \<open>
  Concrete inputs on which the theorems below are exercised: an empty world, a configuration
  with a shared folder and a recipient, outside events in which every call succeeds, and a
  complaint after the example scenario of the specification (with a position added, so that
  the same body is also a complete job application, and with a run of two spaces in the
  name).
\<close>

definition ex_world :: world where
  "ex_world = \<lparr>trace = [], postulaciones = [], quejas = [], seq_postulaciones = 0,
                seq_quejas = 0, hits = Map.empty\<rparr>"

definition ex_config :: config where
  "ex_config = \<lparr>GOOGLE_FOLDER_ID = Some (lit ''F1''), GOOGLE_FOLDER_QUEJAS_ID = None,
                 EMAIL_TO = Some (lit ''rh@x.co''), EMAIL_CC = None\<rparr>"

definition ex_extern :: extern where
  "ex_extern = \<lparr>minutes_now = 7, date_now = 1700000000000,
                 iso_now = lit ''2023-11-14T22:13:20.000Z'', random_uuid = lit ''u1'',
                 files_create_result = Some (lit ''d1''), files_update_ok = True,
                 permissions_create_ok = True, execute_ok = True, sendMail_ok = True\<rparr>"

definition ex_body :: form_body where
  "ex_body = \<lparr>nombre = Some (lit ''Ana  Maria''), email = Some (lit ''ana@x.com''),
               telefono = Some (lit ''3000000000''), cargo = Some (lit ''Cajera''),
               sucursal = Some (lit ''Centro''), asunto = Some (lit ''Demora''),
               mensaje = Some (lit ''Muy lento'')\<rparr>"

definition ex_file :: upload_file where
  "ex_file = \<lparr>originalname = lit ''cv.pdf'', mimetype = lit ''application/pdf'',
               buffer = [37, 80, 68, 70]\<rparr>"

definition ex_request :: request where
  "ex_request = \<lparr>x_forwarded_for = None, remoteAddress = Some (lit ''10.0.0.1''),
                  user_agent = Some (lit ''curl''), body = Some ex_body, req_file = None\<rparr>"

text \<open>
  Variations of the sample request and of the outside events: a field left empty or absent,
  an attachment, and one of the external calls throwing.
\<close>

definition ex_unnamed :: request where
  "ex_unnamed = ex_request\<lparr>body := Some (ex_body\<lparr>nombre := Some []\<rparr>)\<rparr>"

definition ex_no_message :: request where
  "ex_no_message = ex_request\<lparr>body := Some (ex_body\<lparr>mensaje := None\<rparr>)\<rparr>"

definition ex_upload :: request where
  "ex_upload = ex_request\<lparr>req_file := Some ex_file\<rparr>"

definition ex_drive_down :: extern where
  "ex_drive_down = ex_extern\<lparr>permissions_create_ok := False\<rparr>"

definition ex_create_down :: extern where
  "ex_create_down = ex_extern\<lparr>files_create_result := None\<rparr>"

definition ex_mail_down :: extern where
  "ex_mail_down = ex_extern\<lparr>sendMail_ok := False\<rparr>"

definition ex_extern2 :: extern where
  "ex_extern2 = ex_extern\<lparr>random_uuid := lit ''u2'', iso_now := lit ''2023-11-14T22:13:21.000Z''\<rparr>"

text \<open>
  A store that holds two job applications, the older one first, and stand-ins for the two
  library functions of the export: the date is shown as stored, and the sample parser writes
  a header line and one line per object, every cell in double quotes.
\<close>

definition ex_row_old :: row where
  "ex_row_old = [(''id'', JNumber 1), (''nombre'', JString (lit ''Ana'')),
                 (''email'', JString (lit ''ana@x.com'')),
                 (''telefono'', JString (lit ''3000000000'')),
                 (''cargo'', JString (lit ''Cajera'')), (''mensaje'', JString []),
                 (''archivo_url'', JString []),
                 (''fecha_envio'', JString (lit ''2023-11-14T22:13:20.000Z''))]"

definition ex_row_new :: row where
  "ex_row_new = [(''id'', JNumber 2), (''nombre'', JString (lit ''Luis'')),
                 (''email'', JString (lit ''luis@x.com'')),
                 (''telefono'', JString (lit ''3110000000'')),
                 (''cargo'', JString (lit ''Mesero'')), (''mensaje'', JString (lit ''Hola'')),
                 (''archivo_url'', JString (lit ''https://drive.google.com/file/d/d2/view'')),
                 (''fecha_envio'', JString (lit ''2024-02-01T08:00:00.000Z''))]"

definition ex_store :: world where
  "ex_store = ex_world\<lparr>postulaciones := [ex_row_old, ex_row_new], seq_postulaciones := 2\<rparr>"

definition ex_toLocaleString :: "jsval \<Rightarrow> jsstring" where
  "ex_toLocaleString v = (case v of JString s \<Rightarrow> s | _ \<Rightarrow> lit ''Invalid Date'')"

definition ex_cell :: "jsval \<Rightarrow> jsstring" where
  "ex_cell v =
     (case v of JString s \<Rightarrow> [0x22] @ s @ [0x22] | JNumber n \<Rightarrow> digits10 n | _ \<Rightarrow> [])"

fun ex_join :: "jsstring \<Rightarrow> jsstring list \<Rightarrow> jsstring" where
  "ex_join d [] = []"
| "ex_join d [x] = x"
| "ex_join d (x # y # ys) = x @ d @ ex_join d (y # ys)"

definition ex_parse :: "jsstring list \<Rightarrow> jsstring \<Rightarrow> csv_object list \<Rightarrow> jsstring" where
  "ex_parse names delimiter data =
     ex_join [0x0A]
       (ex_join delimiter (map (\<lambda>f. ex_cell (JString f)) names)
        # map (\<lambda>obj. ex_join delimiter
                         (map (\<lambda>f. ex_cell (case map_of obj f of None \<Rightarrow> JUndefined | Some v \<Rightarrow> v))
                            names)) data)"

section \<open>Basic facts\<close>

lemmas io_defs = and_then_def ret_def attempt_def files_create_def files_update_def
  permissions_create_def transporter_sendMail_def execute_insert_def store_row_def
  uploadToDrive_def sendMail_def enviarCorreo_def subirAStorageDrive_def ok_unit_def

lemmas handler_defs = formulario_v1_def quejas_v1_def formulario_v2_def quejas_v2_def
  formulario_v3_def quejas_v3_def

lemmas ex_defs = ex_world_def ex_config_def ex_extern_def ex_body_def ex_file_def
  ex_request_def ex_unnamed_def ex_no_message_def ex_upload_def ex_drive_down_def
  ex_create_down_def ex_mail_down_def ex_extern2_def ex_row_old_def ex_row_new_def
  ex_store_def

lemmas js_defs = truthy_def js_or_def js_of_def or_null_def or_empty_def or_str_def interp_def
  client_ip_def split_comma_first_def

section \<open>Awaited steps\<close>

lemma and_then_assoc: "and_then (and_then m f) g = and_then m (\<lambda>x. and_then (f x) g)"
  by (auto simp: and_then_def fun_eq_iff split: prod.splits option.splits)

lemma and_then_ret: "and_then (ret x) g = g x"
  by (simp add: and_then_def ret_def fun_eq_iff)

lemma new_events_self [simp]: "new_events w w = []"
  by (simp add: new_events_def)

lemma new_events_trace [simp]: "new_events w (w1\<lparr>trace := trace w @ es\<rparr>) = es"
  by (simp add: new_events_def)

text \<open>What a step may do to the world: add events, and nothing else.\<close>

lemma staged [consumes 1, case_names upload_threw insert_threw mail_threw completed]:
  assumes run: "(case and_then U (\<lambda>x. and_then (execute_insert ora t cols (args x)) (\<lambda>_. M)) w
                 of (None, w') \<Rightarrow> (e, w') | (Some y, w') \<Rightarrow> (s, w')) = (r, w')"
  obtains w1 where "U w = (None, w1)" "w' = w1" "r = e"
  | x w1 where "U w = (Some x, w1)" "\<not> execute_ok ora"
      "w' = w1\<lparr>trace := trace w1 @ [Threw (Insert t cols (args x))]\<rparr>" "r = e"
  | x w1 where "U w = (Some x, w1)" "execute_ok ora"
      "M (store_row t (zip cols (args x))
            (w1\<lparr>trace := trace w1 @ [Returned (Insert t cols (args x))]\<rparr>)) = (None, w')" "r = e"
  | x w1 u where "U w = (Some x, w1)" "execute_ok ora"
      "M (store_row t (zip cols (args x))
            (w1\<lparr>trace := trace w1 @ [Returned (Insert t cols (args x))]\<rparr>)) = (Some u, w')" "r = s"
proof (cases "U w")
  case (Pair res w1)
  show ?thesis
  proof (cases res)
    case None
    with Pair run show ?thesis by (intro that(1) [of w1]) (simp_all add: and_then_def)
  next
    case (Some x)
    show ?thesis
    proof (cases "execute_ok ora")
      case False
      with Pair Some run show ?thesis
        by (intro that(2) [of x w1])
           (auto simp: and_then_def execute_insert_def attempt_def ok_unit_def)
    next
      case True
      let ?w2 = "store_row t (zip cols (args x))
            (w1\<lparr>trace := trace w1 @ [Returned (Insert t cols (args x))]\<rparr>)"
      have body: "and_then U (\<lambda>x. and_then (execute_insert ora t cols (args x)) (\<lambda>_. M)) w = M ?w2"
        using Pair Some True by (simp add: and_then_def execute_insert_def attempt_def ok_unit_def)
      show ?thesis
      proof (cases "M ?w2")
        case (Pair res2 w2)
        show ?thesis
        proof (cases res2)
          case None
          with Pair body run \<open>U w = (res, w1)\<close> Some True show ?thesis
            by (intro that(3) [of x w1]) auto
        next
          case (Some u)
          with Pair body run \<open>U w = (res, w1)\<close> \<open>res = Some x\<close> True show ?thesis
            by (intro that(4) [of x w1 u]) auto
        qed
      qed
    qed
  qed
qed

lemma only_adds_ret: "only_adds P (ret x)"
  unfolding only_adds_def
proof
  fix w :: world
  show "\<exists>es. snd (ret x w) = w\<lparr>trace := trace w @ es\<rparr> \<and> list_all (\<lambda>e. P (call_of e)) es
         \<and> (fst (ret x w) = None \<longleftrightarrow> list_ex is_threw es)"
    by (rule exI [of _ "[]"]) (simp add: ret_def)
qed

lemma only_adds_attempt: "P c \<Longrightarrow> only_adds P (attempt c out)"
  unfolding only_adds_def
proof
  fix w :: world
  assume "P c"
  then show "\<exists>es. snd (attempt c out w) = w\<lparr>trace := trace w @ es\<rparr>
         \<and> list_all (\<lambda>e. P (call_of e)) es
         \<and> (fst (attempt c out w) = None \<longleftrightarrow> list_ex is_threw es)"
    by (intro exI [of _ "[case out of None \<Rightarrow> Threw c | Some _ \<Rightarrow> Returned c]"])
       (simp add: attempt_def split: option.splits)
qed

lemma only_adds_and_then:
  assumes m: "only_adds P m" and f: "\<And>x. only_adds P (f x)"
  shows "only_adds P (and_then m f)"
  unfolding only_adds_def
proof
  fix w :: world
  from m obtain es where es: "snd (m w) = w\<lparr>trace := trace w @ es\<rparr>"
      "list_all (\<lambda>e. P (call_of e)) es" "fst (m w) = None \<longleftrightarrow> list_ex is_threw es"
    unfolding only_adds_def by blast
  show "\<exists>es. snd (and_then m f w) = w\<lparr>trace := trace w @ es\<rparr>
         \<and> list_all (\<lambda>e. P (call_of e)) es
         \<and> (fst (and_then m f w) = None \<longleftrightarrow> list_ex is_threw es)"
  proof (cases "fst (m w)")
    case None
    then have "and_then m f w = (None, snd (m w))"
      by (auto simp: and_then_def split: prod.splits)
    with es None show ?thesis by (intro exI [of _ es]) simp
  next
    case (Some x)
    then have run: "and_then m f w = f x (snd (m w))"
      by (auto simp: and_then_def split: prod.splits)
    from f [of x] obtain es2 where es2:
      "snd (f x (snd (m w))) = (snd (m w))\<lparr>trace := trace (snd (m w)) @ es2\<rparr>"
      "list_all (\<lambda>e. P (call_of e)) es2" "fst (f x (snd (m w))) = None \<longleftrightarrow> list_ex is_threw es2"
      unfolding only_adds_def by blast
    from es Some have "\<not> list_ex is_threw es" by simp
    with es es2 run show ?thesis
      by (intro exI [of _ "es @ es2"]) (auto simp: list_ex_iff)
  qed
qed

lemma only_adds_if:
  "(c \<Longrightarrow> only_adds P m) \<Longrightarrow> (\<not> c \<Longrightarrow> only_adds P n) \<Longrightarrow> only_adds P (if c then m else n)"
  by simp

lemma only_adds_case_option:
  "(x = None \<Longrightarrow> only_adds P m) \<Longrightarrow> (\<And>y. x = Some y \<Longrightarrow> only_adds P (n y))
     \<Longrightarrow> only_adds P (case x of None \<Rightarrow> m | Some y \<Rightarrow> n y)"
  by (cases x) simp_all

lemma only_adds_drive [simp]:
  "only_adds is_drive_call (files_create ora a b c d)"
  "only_adds is_drive_call (files_update ora i p)"
  "only_adds is_drive_call (permissions_create ora i)"
  by (simp_all add: files_create_def files_update_def permissions_create_def only_adds_attempt)

lemma only_adds_uploads [simp]:
  "only_adds is_drive_call (uploadToDrive ora buf fname mime parent)"
  "only_adds is_drive_call (subirAStorageDrive ora f folder)"
  by (simp_all add: uploadToDrive_def subirAStorageDrive_def only_adds_and_then only_adds_ret)

lemma only_adds_mail [simp]:
  "only_adds is_mail_call (transporter_sendMail ora to cc subject)"
  "only_adds is_mail_call (sendMail cfg ora subject)"
  "only_adds is_mail_call (enviarCorreo ora to subject)"
  by (simp_all add: transporter_sendMail_def sendMail_def enviarCorreo_def only_adds_attempt)

lemma store_row_trace: "store_row t r (w\<lparr>trace := z\<rparr>) = (store_row t r w)\<lparr>trace := z\<rparr>"
  by (simp add: store_row_def split: table.splits)

lemma trace_store_row [simp]: "trace (store_row t r w) = trace w"
  by (simp add: store_row_def split: table.splits)

lemma pipeline_cases [consumes 3, case_names upload_threw insert_threw stored]:
  assumes run: "(case and_then U (\<lambda>x. and_then (execute_insert ora t cols (args x)) (\<lambda>_. M)) w
                 of (None, w') \<Rightarrow> (e, w') | (Some y, w') \<Rightarrow> (s, w')) = (r, w')"
    and U: "only_adds is_drive_call U" and M: "only_adds is_mail_call M"
  obtains des where "fst (U w) = None" "new_events w (snd (U w)) = des"
      "w' = w\<lparr>trace := trace w @ des\<rparr>"
      "list_all (\<lambda>e. is_drive_call (call_of e)) des" "list_ex is_threw des" "r = e"
  | x des where "fst (U w) = Some x" "new_events w (snd (U w)) = des" "\<not> execute_ok ora"
      "w' = w\<lparr>trace := trace w @ des @ [Threw (Insert t cols (args x))]\<rparr>"
      "list_all (\<lambda>e. is_drive_call (call_of e)) des" "\<not> list_ex is_threw des" "r = e"
  | x des mes where "fst (U w) = Some x" "new_events w (snd (U w)) = des" "execute_ok ora"
      "w' = (store_row t (zip cols (args x)) w)
              \<lparr>trace := trace w @ des @ Returned (Insert t cols (args x)) # mes\<rparr>"
      "list_all (\<lambda>e. is_drive_call (call_of e)) des" "\<not> list_ex is_threw des"
      "list_all (\<lambda>e. is_mail_call (call_of e)) mes"
      "r = (if list_ex is_threw mes then e else s)"
proof -
  from U obtain des where des: "snd (U w) = w\<lparr>trace := trace w @ des\<rparr>"
      "list_all (\<lambda>e. is_drive_call (call_of e)) des" "fst (U w) = None \<longleftrightarrow> list_ex is_threw des"
    unfolding only_adds_def by blast
  have new: "new_events w (snd (U w)) = des"
    using des(1) by simp
  from run show ?thesis
  proof (cases rule: staged)
    case (upload_threw w1)
    show ?thesis using upload_threw des new by - (rule that(1) [of des], simp_all)
  next
    case (insert_threw x w1)
    show ?thesis using insert_threw des new by - (rule that(2) [of x des], simp_all)
  next
    case (mail_threw x w1)
    let ?w2 = "store_row t (zip cols (args x))
                 (w1\<lparr>trace := trace w1 @ [Returned (Insert t cols (args x))]\<rparr>)"
    from M obtain mes where mes: "snd (M ?w2) = ?w2\<lparr>trace := trace ?w2 @ mes\<rparr>"
      "list_all (\<lambda>e. is_mail_call (call_of e)) mes" "fst (M ?w2) = None \<longleftrightarrow> list_ex is_threw mes"
      unfolding only_adds_def by blast
    from mail_threw des have w1: "w1 = w\<lparr>trace := trace w @ des\<rparr>" by simp
    show ?thesis using mail_threw mes des new
      by - (rule that(3) [of x des mes], simp_all add: w1 store_row_trace)
  next
    case (completed x w1 u)
    let ?w2 = "store_row t (zip cols (args x))
                 (w1\<lparr>trace := trace w1 @ [Returned (Insert t cols (args x))]\<rparr>)"
    from M obtain mes where mes: "snd (M ?w2) = ?w2\<lparr>trace := trace ?w2 @ mes\<rparr>"
      "list_all (\<lambda>e. is_mail_call (call_of e)) mes" "fst (M ?w2) = None \<longleftrightarrow> list_ex is_threw mes"
      unfolding only_adds_def by blast
    from completed des have w1: "w1 = w\<lparr>trace := trace w @ des\<rparr>" by simp
    show ?thesis using completed mes des new
      by - (rule that(3) [of x des mes], simp_all add: w1 store_row_trace)
  qed
qed

lemma summaryI_refused:
  "refusal v k req = Some c \<Longrightarrow> status r = c \<Longrightarrow> w' = w \<Longrightarrow> summary v k ora req w r w'"
  by (simp add: summary_def)

lemma summaryI_upload_threw:
  "refusal v k req = None \<Longrightarrow> req_file req \<noteq> None \<Longrightarrow> upload_facts v k ora req des
     \<Longrightarrow> list_all (\<lambda>e. is_drive_call (call_of e)) des \<Longrightarrow> list_ex is_threw des
     \<Longrightarrow> w' = w\<lparr>trace := trace w @ des\<rparr> \<Longrightarrow> status r = 500
     \<Longrightarrow> summary v k ora req w r w'"
  unfolding summary_def by blast

lemma summaryI_insert_threw:
  "refusal v k req = None \<Longrightarrow> \<not> execute_ok ora \<Longrightarrow> upload_facts v k ora req des
     \<Longrightarrow> list_all (\<lambda>e. is_drive_call (call_of e)) des \<Longrightarrow> \<not> list_ex is_threw des
     \<Longrightarrow> w' = w\<lparr>trace := trace w @ des @ [Threw (Insert t cols args)]\<rparr>
     \<Longrightarrow> status r = 500 \<Longrightarrow> table_of k = t
     \<Longrightarrow> summary v k ora req w r w'"
  unfolding summary_def by blast

lemma summaryI_stored:
  "refusal v k req = None \<Longrightarrow> execute_ok ora \<Longrightarrow> upload_facts v k ora req des
     \<Longrightarrow> list_all (\<lambda>e. is_drive_call (call_of e)) des \<Longrightarrow> \<not> list_ex is_threw des
     \<Longrightarrow> list_all (\<lambda>e. is_mail_call (call_of e)) mes
     \<Longrightarrow> row_facts v k ora req (zip cols args)
     \<Longrightarrow> w' = (store_row t (zip cols args) w)
                 \<lparr>trace := trace w @ des @ Returned (Insert t cols args) # mes\<rparr>
     \<Longrightarrow> status r = (if list_ex is_threw mes then 500 else 200) \<Longrightarrow> table_of k = t
     \<Longrightarrow> summary v k ora req w r w'"
  unfolding summary_def by blast

lemma first_event_subir:
  "\<exists>ev rest. new_events w (snd (subirAStorageDrive ora f folder w)) = ev # rest
      \<and> call_of ev = FilesCreate (originalname f) (mimetype f) (buffer f) None"
  by (simp add: subirAStorageDrive_def files_create_def files_update_def permissions_create_def
      and_then_def attempt_def ret_def new_events_def ok_unit_def split: option.splits)

lemma fst_ret [simp]: "fst (ret x w) = Some x" and snd_ret [simp]: "snd (ret x w) = w"
  by (simp_all add: ret_def)

lemma upload_only_adds:
  "(\<And>f. only_adds is_drive_call (up f))
     \<Longrightarrow> only_adds is_drive_call (case x of None \<Rightarrow> ret x0 | Some f \<Rightarrow> up f)"
  by (simp add: only_adds_ret split: option.splits)

lemma upload_threw_file:
  "fst ((case req_file req of None \<Rightarrow> ret x0 | Some f \<Rightarrow> up f) w) = None \<Longrightarrow> req_file req \<noteq> None"
  by (cases "req_file req") simp_all

lemma upload_no_file:
  "fst ((case req_file req of None \<Rightarrow> ret x0 | Some f \<Rightarrow> up f) w) = Some x
     \<Longrightarrow> req_file req = None \<Longrightarrow> x = x0"
  by simp

lemma upload_facts_step:
  assumes "new_events w (snd ((case req_file req of None \<Rightarrow> ret x0 | Some f \<Rightarrow> up f) w)) = des"
    and "\<And>f. req_file req = Some f \<Longrightarrow> \<exists>ev rest parents. new_events w (snd (up f w)) = ev # rest
                  \<and> call_of ev = FilesCreate (object_name v k ora req f) (mimetype f) (buffer f) parents"
  shows "upload_facts v k ora req des"
  using assms by (cases "req_file req") (auto simp: upload_facts_def)


section \<open>The shape of every handler\<close>

lemma first_event_uploadToDrive:
  "\<exists>ev rest. new_events w (snd (uploadToDrive ora buf name mime parent w)) = ev # rest
      \<and> call_of ev = FilesCreate name mime buf (Some [parent])"
  by (simp add: uploadToDrive_def files_create_def permissions_create_def
      and_then_def attempt_def ret_def new_events_def ok_unit_def split: option.splits)

lemma first_event_inline:
  "\<exists>ev rest. new_events w (snd (and_then (files_create ora name mime buf None)
        (\<lambda>i. and_then (files_update ora i p) (\<lambda>_. and_then (permissions_create ora i) (\<lambda>_. ret (g i)))) w))
       = ev # rest
      \<and> call_of ev = FilesCreate name mime buf None"
  by (simp add: files_create_def files_update_def permissions_create_def
      and_then_def attempt_def ret_def new_events_def ok_unit_def split: option.splits)

lemma only_adds_inline:
  "only_adds is_drive_call (and_then (files_create ora name mime buf None)
        (\<lambda>i. and_then (files_update ora i p) (\<lambda>_. and_then (permissions_create ora i) (\<lambda>_. ret (g i)))))"
  by (intro only_adds_and_then only_adds_ret) simp_all

lemma only_adds_optional_mail:
  "only_adds is_mail_call (if c then enviarCorreo ora to subject else ret ())"
  by (simp add: only_adds_ret)

lemma row_facts_postulaciones:
  "v \<noteq> V1 \<Longrightarrow> body req = Some b \<Longrightarrow> (req_file req = None \<Longrightarrow> x = [])
     \<Longrightarrow> row_facts v JobApplication ora req
           (zip cols_postulaciones [a1, a2, a3, a4, JString (or_empty (mensaje b)), JString x, a7])"
  by (simp add: row_facts_def cols_postulaciones_def)

lemma row_facts_quejas:
  "v \<noteq> V1 \<Longrightarrow> (req_file req = None \<Longrightarrow> x = [])
     \<Longrightarrow> row_facts v Complaint ora req
           (zip cols_quejas [a1, a2, a3, a4, a5, a6, JString x, a8])"
  by (simp add: row_facts_def cols_quejas_def)

lemma row_facts_postulaciones_v1:
  "body req = Some b \<Longrightarrow> (req_file req = None \<Longrightarrow> x = (JNull, JNull))
     \<Longrightarrow> row_facts V1 JobApplication ora req
           (zip cols_postulaciones_v1
              [JString (random_uuid ora), a1, a2, a3, a4,
               JString (case mensaje b of None \<Rightarrow> [] | Some m \<Rightarrow> m), fst x, snd x, a9, a10])"
  by (auto simp: row_facts_def cols_postulaciones_v1_def or_empty_def)

lemma row_facts_quejas_v1:
  "(req_file req = None \<Longrightarrow> x = (JNull, JNull))
     \<Longrightarrow> row_facts V1 Complaint ora req
           (zip cols_quejas_v1
              [JString (random_uuid ora), a1, a2, a3, a4, a5, a6, fst x, snd x, a9, a10])"
  by (auto simp: row_facts_def cols_quejas_v1_def)

lemma summary_formulario_v3:
  assumes run: "formulario_v3 cfg ora req w = (r, w')"
  shows "summary V3 JobApplication ora req w r w'"
proof (cases "body req")
  case None
  with run show ?thesis
    by (intro summaryI_refused [where c = 500])
       (auto simp: formulario_v3_def refusal_def json_def)
next
  case (Some b)
  have ref: "refusal V3 JobApplication req = None"
    using Some by (simp add: refusal_def)
  have first: "\<exists>ev rest parents.
      new_events w (snd (subirAStorageDrive ora f (FOLDER_POSTULACIONES cfg) w)) = ev # rest
      \<and> call_of ev = FilesCreate (object_name V3 JobApplication ora req f) (mimetype f) (buffer f) parents" for f
    using first_event_subir [of w ora f "FOLDER_POSTULACIONES cfg"]
    by (simp add: object_name_def) blast
  note R = run [unfolded formulario_v3_def Some option.case]
  from R upload_only_adds [OF only_adds_uploads(2)] only_adds_optional_mail show ?thesis
  proof (cases rule: pipeline_cases)
    case (upload_threw des)
    show ?thesis
      by (rule summaryI_upload_threw [OF ref upload_threw_file [OF upload_threw(1)]
            upload_facts_step [OF upload_threw(2) first] upload_threw(4,5,3)])
         (simp add: upload_threw(6) json_def)
  next
    case (insert_threw x des)
    show ?thesis
      by (rule summaryI_insert_threw [OF ref insert_threw(3)
            upload_facts_step [OF insert_threw(2) first] insert_threw(5,6,4)])
         (simp_all add: insert_threw(7) json_def)
  next
    case (stored x des mes)
    show ?thesis
      by (rule summaryI_stored [OF ref stored(3)
            upload_facts_step [OF stored(2) first] stored(5,6,7)
            row_facts_postulaciones [OF _ Some upload_no_file [OF stored(1)]] stored(4)])
         (simp_all add: stored(8) json_def)
  qed
qed


lemma summary_quejas_v3:
  assumes run: "quejas_v3 cfg ora req w = (r, w')"
  shows "summary V3 Complaint ora req w r w'"
proof (cases "body req")
  case None
  with run show ?thesis
    by (intro summaryI_refused [where c = 500])
       (auto simp: quejas_v3_def refusal_def json_def)
next
  case (Some b)
  have ref: "refusal V3 Complaint req = None"
    using Some by (simp add: refusal_def)
  have first: "\<exists>ev rest parents.
      new_events w (snd (subirAStorageDrive ora f (FOLDER_QUEJAS cfg) w)) = ev # rest
      \<and> call_of ev = FilesCreate (object_name V3 Complaint ora req f) (mimetype f) (buffer f) parents" for f
    using first_event_subir [of w ora f "FOLDER_QUEJAS cfg"]
    by (simp add: object_name_def) blast
  note R = run [unfolded quejas_v3_def Some option.case]
  from R upload_only_adds [OF only_adds_uploads(2)] only_adds_optional_mail show ?thesis
  proof (cases rule: pipeline_cases)
    case (upload_threw des)
    show ?thesis
      by (rule summaryI_upload_threw [OF ref upload_threw_file [OF upload_threw(1)]
            upload_facts_step [OF upload_threw(2) first] upload_threw(4,5,3)])
         (simp add: upload_threw(6) json_def)
  next
    case (insert_threw x des)
    show ?thesis
      by (rule summaryI_insert_threw [OF ref insert_threw(3)
            upload_facts_step [OF insert_threw(2) first] insert_threw(5,6,4)])
         (simp_all add: insert_threw(7) json_def)
  next
    case (stored x des mes)
    show ?thesis
      by (rule summaryI_stored [OF ref stored(3)
            upload_facts_step [OF stored(2) first] stored(5,6,7)
            row_facts_quejas [OF _ upload_no_file [OF stored(1)]] stored(4)])
         (simp_all add: stored(8) json_def)
  qed
qed

lemma summary_quejas_v2:
  assumes run: "quejas_v2 cfg ora req w = (r, w')"
  shows "summary V2 Complaint ora req w r w'"
proof (cases "body req")
  case None
  with run show ?thesis
    by (intro summaryI_refused [where c = 500])
       (auto simp: quejas_v2_def refusal_def send_def)
next
  case (Some b)
  have ref: "refusal V2 Complaint req = None"
    using Some by (simp add: refusal_def)
  have first: "\<exists>ev rest parents.
      new_events w (snd (and_then (files_create ora (originalname f) (mimetype f) (buffer f) None)
        (\<lambda>i. and_then (files_update ora i p)
           (\<lambda>_. and_then (permissions_create ora i) (\<lambda>_. ret (drive_url i)))) w)) = ev # rest
      \<and> call_of ev = FilesCreate (object_name V2 Complaint ora req f) (mimetype f) (buffer f) parents"
    for f p
    using first_event_inline [of w ora "originalname f" "mimetype f" "buffer f" p drive_url]
    by (simp add: object_name_def) blast
  note R = run [unfolded quejas_v2_def Some option.case]
  from R upload_only_adds [OF only_adds_inline] only_adds_mail(3) show ?thesis
  proof (cases rule: pipeline_cases)
    case (upload_threw des)
    show ?thesis
      by (rule summaryI_upload_threw [OF ref upload_threw_file [OF upload_threw(1)]
            upload_facts_step [OF upload_threw(2) first] upload_threw(4,5,3)])
         (simp add: upload_threw(6) send_def)
  next
    case (insert_threw x des)
    show ?thesis
      by (rule summaryI_insert_threw [OF ref insert_threw(3)
            upload_facts_step [OF insert_threw(2) first] insert_threw(5,6,4)])
         (simp_all add: insert_threw(7) send_def)
  next
    case (stored x des mes)
    show ?thesis
      by (rule summaryI_stored [OF ref stored(3)
            upload_facts_step [OF stored(2) first] stored(5,6,7)
            row_facts_quejas [OF _ upload_no_file [OF stored(1)]] stored(4)])
         (simp_all add: stored(8) send_def)
  qed
qed

lemma summary_formulario_v2:
  assumes run: "formulario_v2 cfg ora req w = (r, w')"
  shows "summary V2 JobApplication ora req w r w'"
proof (cases "body req")
  case None
  with run show ?thesis
    by (intro summaryI_refused [where c = 500])
       (auto simp: formulario_v2_def refusal_def send_def)
next
  case (Some b)
  show ?thesis
  proof (cases "req_file req")
    case None
    with run Some show ?thesis
      by (intro summaryI_refused [where c = 400])
         (auto simp: formulario_v2_def refusal_def send_def)
  next
    case att: (Some archivo)
    have ref: "refusal V2 JobApplication req = None"
      using Some att by (simp add: refusal_def)
    let ?U = "and_then (files_create ora (originalname archivo) (mimetype archivo)
                          (buffer archivo) None)
                (\<lambda>i. and_then (files_update ora i (js_of (GOOGLE_FOLDER_ID cfg)))
                   (\<lambda>_. and_then (permissions_create ora i) (\<lambda>_. ret i)))"
    have up: "upload_facts V2 JobApplication ora req des" if "new_events w (snd (?U w)) = des" for des
      using that first_event_inline [of w ora "originalname archivo" "mimetype archivo"
          "buffer archivo" "js_of (GOOGLE_FOLDER_ID cfg)" "\<lambda>i. i"]
      by (auto simp: upload_facts_def att object_name_def)
    have "(case and_then ?U
             (\<lambda>fileId. and_then
                (execute_insert ora Postulaciones cols_postulaciones
                   [js_of (nombre b), js_of (email b), js_of (telefono b),
                    js_of (cargo b), JString (or_empty (mensaje b)),
                    JString (drive_url fileId), JString (iso_now ora)])
                (\<lambda>_. enviarCorreo ora (filter truthy [EMAIL_TO cfg, EMAIL_CC cfg])
                        ([0xD83D, 0xDCE9] @ lit '' Nueva postulaci'' @ [0xF3]
                           @ lit ''n - '' @ interp (nombre b)))) w
           of (None, w') \<Rightarrow> (send 500 (lit ''Error al procesar el formulario.''), w')
            | (Some _, w') \<Rightarrow>
                (send 200 (lit ''Formulario enviado con '' @ [0xE9] @ lit ''xito.''), w'))
          = (r, w')"
      using run [unfolded formulario_v2_def Some att option.case]
      by (simp add: and_then_assoc and_then_ret)
    from this only_adds_inline only_adds_mail(3) show ?thesis
    proof (cases rule: pipeline_cases)
      case (upload_threw des)
      show ?thesis
        by (rule summaryI_upload_threw [OF ref _ up [OF upload_threw(2)] upload_threw(4,5,3)])
           (simp_all add: upload_threw(6) send_def att)
    next
      case (insert_threw x des)
      show ?thesis
        by (rule summaryI_insert_threw [OF ref insert_threw(3) up [OF insert_threw(2)]
              insert_threw(5,6,4)])
           (simp_all add: insert_threw(7) send_def)
    next
      case (stored x des mes)
      show ?thesis
        by (rule summaryI_stored [OF ref stored(3) up [OF stored(2)] stored(5,6,7)
              row_facts_postulaciones [OF _ Some] stored(4)])
           (simp_all add: stored(8) send_def att)
    qed
  qed
qed

lemma v1_check_formulario:
  "missing_required JobApplication req \<longleftrightarrow>
     (let b = (case body req of None \<Rightarrow> empty_body | Some b \<Rightarrow> b)
      in \<not> truthy (nombre b) \<or> \<not> truthy (email b) \<or> \<not> truthy (telefono b) \<or> \<not> truthy (cargo b))"
  by (simp add: missing_required_def empty_body_def truthy_def split: option.splits)

lemma v1_check_quejas:
  "missing_required Complaint req \<longleftrightarrow>
     (let b = (case body req of None \<Rightarrow> empty_body | Some b \<Rightarrow> b)
      in \<not> truthy (nombre b) \<or> \<not> truthy (email b) \<or> \<not> truthy (telefono b)
         \<or> \<not> truthy (sucursal b) \<or> \<not> truthy (asunto b) \<or> \<not> truthy (mensaje b))"
  by (simp add: missing_required_def empty_body_def truthy_def split: option.splits)

lemma v1_refuses:
  "missing_required k req \<Longrightarrow>
     submit V1 k cfg ora req w = (send 400 (lit ''Faltan campos obligatorios.''), w)"
  by (cases k) (simp_all add: v1_check_formulario v1_check_quejas formulario_v1_def quejas_v1_def
      Let_def)

lemma lit_append: "lit (a @ b) = lit a @ lit b"
  by (simp add: lit_def)

lemma summary_formulario_v1:
  assumes run: "formulario_v1 cfg ora req w = (r, w')"
  shows "summary V1 JobApplication ora req w r w'"
proof (cases "missing_required JobApplication req")
  case True
  with run v1_refuses [OF True, of cfg ora w] show ?thesis
    by (intro summaryI_refused [where c = 400]) (auto simp: refusal_def send_def)
next
  case False
  then obtain b where Some: "body req = Some b"
    by (auto simp: missing_required_def split: option.splits)
  have ref: "refusal V1 JobApplication req = None"
    using False by (simp add: refusal_def)
  have valid: "(\<not> truthy (nombre b) \<or> \<not> truthy (email b) \<or> \<not> truthy (telefono b)
                  \<or> \<not> truthy (cargo b)) = False"
    using False by (simp add: v1_check_formulario Some)
  have first: "\<exists>ev rest parents.
      new_events w (snd (uploadToDrive ora (buffer f)
          (lit ''HV_'' @ replace_spaces (or_empty (nombre b)) @ lit ''_'' @ digits10 (date_now ora))
          (mimetype f) (js_of (GOOGLE_FOLDER_ID cfg)) w)) = ev # rest
      \<and> call_of ev = FilesCreate (object_name V1 JobApplication ora req f) (mimetype f) (buffer f) parents" for f
    using first_event_uploadToDrive [of w ora "buffer f"
        "lit ''HV_'' @ replace_spaces (or_empty (nombre b)) @ lit ''_'' @ digits10 (date_now ora)"
        "mimetype f" "js_of (GOOGLE_FOLDER_ID cfg)"]
    by (simp add: object_name_def Some lit_def) blast
  note R = run [unfolded formulario_v1_def Let_def Some option.case valid if_False]
  from R upload_only_adds [OF only_adds_uploads(1)] only_adds_mail(2) show ?thesis
  proof (cases rule: pipeline_cases)
    case (upload_threw des)
    show ?thesis
      by (rule summaryI_upload_threw [OF ref upload_threw_file [OF upload_threw(1)]
            upload_facts_step [OF upload_threw(2) first] upload_threw(4,5,3)])
         (simp add: upload_threw(6) send_def)
  next
    case (insert_threw x des)
    show ?thesis
      by (rule summaryI_insert_threw [OF ref insert_threw(3)
            upload_facts_step [OF insert_threw(2) first] insert_threw(5,6,4)])
         (simp_all add: insert_threw(7) send_def)
  next
    case (stored x des mes)
    show ?thesis
      by (rule summaryI_stored [OF ref stored(3)
            upload_facts_step [OF stored(2) first] stored(5,6,7)
            row_facts_postulaciones_v1 [OF Some upload_no_file [OF stored(1)]] stored(4)])
         (simp_all add: stored(8) send_def)
  qed
qed

lemma summary_quejas_v1:
  assumes run: "quejas_v1 cfg ora req w = (r, w')"
  shows "summary V1 Complaint ora req w r w'"
proof (cases "missing_required Complaint req")
  case True
  with run v1_refuses [OF True, of cfg ora w] show ?thesis
    by (intro summaryI_refused [where c = 400]) (auto simp: refusal_def send_def)
next
  case False
  then obtain b where Some: "body req = Some b"
    by (auto simp: missing_required_def split: option.splits)
  have ref: "refusal V1 Complaint req = None"
    using False by (simp add: refusal_def)
  have valid: "(\<not> truthy (nombre b) \<or> \<not> truthy (email b) \<or> \<not> truthy (telefono b)
                  \<or> \<not> truthy (sucursal b) \<or> \<not> truthy (asunto b) \<or> \<not> truthy (mensaje b)) = False"
    using False by (simp add: v1_check_quejas Some)
  have first: "\<exists>ev rest parents.
      new_events w (snd (uploadToDrive ora (buffer f)
          (lit ''QUEJA_'' @ replace_spaces (or_empty (nombre b)) @ lit ''_'' @ digits10 (date_now ora))
          (mimetype f) (js_of (js_or (GOOGLE_FOLDER_QUEJAS_ID cfg) (GOOGLE_FOLDER_ID cfg))) w))
        = ev # rest
      \<and> call_of ev = FilesCreate (object_name V1 Complaint ora req f) (mimetype f) (buffer f) parents" for f
    using first_event_uploadToDrive [of w ora "buffer f"
        "lit ''QUEJA_'' @ replace_spaces (or_empty (nombre b)) @ lit ''_'' @ digits10 (date_now ora)"
        "mimetype f" "js_of (js_or (GOOGLE_FOLDER_QUEJAS_ID cfg) (GOOGLE_FOLDER_ID cfg))"]
    by (simp add: object_name_def Some lit_def) blast
  note R = run [unfolded quejas_v1_def Let_def Some option.case valid if_False]
  from R upload_only_adds [OF only_adds_uploads(1)] only_adds_mail(2) show ?thesis
  proof (cases rule: pipeline_cases)
    case (upload_threw des)
    show ?thesis
      by (rule summaryI_upload_threw [OF ref upload_threw_file [OF upload_threw(1)]
            upload_facts_step [OF upload_threw(2) first] upload_threw(4,5,3)])
         (simp add: upload_threw(6) send_def)
  next
    case (insert_threw x des)
    show ?thesis
      by (rule summaryI_insert_threw [OF ref insert_threw(3)
            upload_facts_step [OF insert_threw(2) first] insert_threw(5,6,4)])
         (simp_all add: insert_threw(7) send_def)
  next
    case (stored x des mes)
    show ?thesis
      by (rule summaryI_stored [OF ref stored(3)
            upload_facts_step [OF stored(2) first] stored(5,6,7)
            row_facts_quejas_v1 [OF upload_no_file [OF stored(1)]] stored(4)])
         (simp_all add: stored(8) send_def)
  qed
qed

text \<open>Every handler of every variant ends in one of the four ways of \<open>summary\<close>.\<close>

lemma submit_summary:
  "submit v k cfg ora req w = (r, w') \<Longrightarrow> summary v k ora req w r w'"
  by (cases v; cases k)
     (simp_all add: summary_formulario_v1 summary_quejas_v1 summary_formulario_v2
        summary_quejas_v2 summary_formulario_v3 summary_quejas_v3)

section \<open>What a request leaves behind\<close>

lemma submit_cases [consumes 1, case_names refused upload_threw insert_threw stored]:
  assumes "submit v k cfg ora req w = (r, w')"
  obtains c where "refusal v k req = Some c" "status r = c" "w' = w"
  | des where "refusal v k req = None" "req_file req \<noteq> None" "upload_facts v k ora req des"
      "list_all (\<lambda>e. is_drive_call (call_of e)) des" "list_ex is_threw des"
      "w' = w\<lparr>trace := trace w @ des\<rparr>" "status r = 500"
  | des cols args where "refusal v k req = None" "\<not> execute_ok ora" "upload_facts v k ora req des"
      "list_all (\<lambda>e. is_drive_call (call_of e)) des" "\<not> list_ex is_threw des"
      "w' = w\<lparr>trace := trace w @ des @ [Threw (Insert (table_of k) cols args)]\<rparr>" "status r = 500"
  | des cols args mes where "refusal v k req = None" "execute_ok ora" "upload_facts v k ora req des"
      "list_all (\<lambda>e. is_drive_call (call_of e)) des" "\<not> list_ex is_threw des"
      "list_all (\<lambda>e. is_mail_call (call_of e)) mes"
      "row_facts v k ora req (zip cols args)"
      "w' = (store_row (table_of k) (zip cols args) w)
               \<lparr>trace := trace w @ des @ Returned (Insert (table_of k) cols args) # mes\<rparr>"
      "status r = (if list_ex is_threw mes then 500 else 200)"
  using submit_summary [OF assms] unfolding summary_def by blast

lemma mail_not_drive: "is_mail_call c \<Longrightarrow> \<not> is_drive_call c"
  by (cases c) simp_all

text \<open>What the store keeps of a row handed to it.\<close>

lemma rows_of_store_row:
  "rows_of t (store_row t r w) =
     rows_of t w @ [if ''id'' \<in> set (map fst r) then r
                    else (''id'', JNumber (seq_of t w + 1)) # r]"
  by (cases t) (simp_all add: rows_of_def store_row_def seq_of_def)



lemma rows_of_trace [simp]: "rows_of t (w\<lparr>trace := z\<rparr>) = rows_of t w"
  by (simp add: rows_of_def split: table.splits)

lemma seq_of_trace [simp]: "seq_of t (w\<lparr>trace := z\<rparr>) = seq_of t w"
  by (simp add: seq_of_def split: table.splits)

lemma tables_rows_of:
  "postulaciones w = rows_of Postulaciones w" "quejas w = rows_of Quejas w"
  by (simp_all add: rows_of_def)

lemma col_stored:
  "c \<noteq> ''id'' \<Longrightarrow> map_of r c = Some x
     \<Longrightarrow> col (if ''id'' \<in> set (map fst r) then r else (''id'', a) # r) c = x"
  by (simp add: col_def)


lemma upload_facts_no_file: "req_file req = None \<Longrightarrow> upload_facts v k ora req des \<Longrightarrow> des = []"
  by (simp add: upload_facts_def)

text \<open>The row a job application without attachment leaves in the store, if it leaves one.\<close>

lemma no_file_row:
  assumes "row_facts v JobApplication ora req r" and "req_file req = None"
  shows "if v = V1
         then col (if ''id'' \<in> set (map fst r) then r else (''id'', a) # r) ''drive_file_url'' = JNull
            \<and> col (if ''id'' \<in> set (map fst r) then r else (''id'', a) # r) ''drive_file_id'' = JNull
         else col (if ''id'' \<in> set (map fst r) then r else (''id'', a) # r) ''archivo_url'' = JString []"
  using assms by (auto simp: row_facts_def col_def)






text \<open>Without a file in the request as the handler receives it, no storage call is made.\<close>

lemma no_file_no_drive:
  assumes "submit v k cfg ora req w = (r, w')" and "req_file req = None"
  shows "list_all (\<lambda>e. \<not> is_drive_call (call_of e)) (new_events w w')"
  using assms(1)
proof (cases rule: submit_cases)
  case (refused c)
  then show ?thesis by simp
next
  case (upload_threw des)
  with assms(2) show ?thesis by simp
next
  case (insert_threw des cols args)
  with assms(2) have "des = []" by (simp add: upload_facts_no_file)
  with insert_threw show ?thesis by simp
next
  case (stored des cols args mes)
  with assms(2) have "des = []" by (simp add: upload_facts_no_file)
  with stored show ?thesis by (auto simp: list_all_iff dest: mail_not_drive)
qed

text \<open>
  In variant 1 the request that reaches a handler never has a file: the filter of the source
  accepts none. So no route of variant 1 ever calls the storage gateway, and the code of its
  handlers that names and uploads the attachment is never run.
\<close>

lemma upload_single_drops_file: "upload_single req = Some req' \<Longrightarrow> req_file req' = None"
  by (auto simp: upload_single_def fileFilter_def Let_def split: option.splits if_splits)

lemma upload_single_keeps_rest:
  "upload_single req = Some req' \<Longrightarrow> req' = req\<lparr>req_file := None\<rparr>"
  by (auto simp: upload_single_def fileFilter_def Let_def split: option.splits if_splits)

lemma routes_v1_never_uploads:
  "list_all (\<lambda>e. \<not> is_drive_call (call_of e)) (new_events w (snd (routes_v1 cfg ora rt req w)))"
proof (cases "upload_single req")
  case None
  then show ?thesis by (simp add: routes_v1_def split: route.splits)
next
  case (Some req')
  have nofile: "req_file req' = None" by (rule upload_single_drops_file [OF Some])
  have "list_all (\<lambda>e. \<not> is_drive_call (call_of e)) (new_events w (snd (submit V1 k cfg ora req' w)))" for k
    by (rule no_file_no_drive [OF surjective_pairing nofile])
  from this [of JobApplication] this [of Complaint] show ?thesis
    by (simp add: routes_v1_def Some case_prod_beta split: route.splits)
qed

section \<open>White-space replacement\<close>

text \<open>
  What \<open>replace_spaces\<close>, the sanitization in the handlers of variant 1, computes: a string
  without white space is left as it is, the result never contains white space, and a maximal
  run of white space between two parts becomes one underscore.
\<close>

lemma replace_spaces_id: "\<not> list_ex is_space xs \<Longrightarrow> replace_spaces xs = xs"
  by (induction xs) simp_all

lemma underscore_not_space: "\<not> is_space 0x5F"
  by (simp add: is_space_def)

text \<open>No white space is left in the result.\<close>

lemma replace_spaces_clean: "list_all (\<lambda>c. \<not> is_space c) (replace_spaces xs)"
  by (induction xs rule: replace_spaces.induct) (simp_all add: underscore_not_space)

lemma dropWhile_run:
  assumes "list_all P ws" and "ys = [] \<or> \<not> P (hd ys)"
  shows "dropWhile P (ws @ ys) = ys"
proof -
  have "dropWhile P ys = ys" using assms(2) by (cases ys) auto
  with assms(1) show ?thesis by (induction ws) simp_all
qed

lemma replace_spaces_run_front:
  assumes "ws \<noteq> []" and "list_all is_space ws" and "ys = [] \<or> \<not> is_space (hd ys)"
  shows "replace_spaces (ws @ ys) = 0x5F # replace_spaces ys"
proof -
  from assms(1) obtain c cs where ws: "ws = c # cs" by (cases ws) auto
  with assms(2) have "is_space c" "list_all is_space cs" by simp_all
  then show ?thesis
    using assms(3) by (simp add: ws dropWhile_run)
qed

lemma last_dropWhile:
  "xs \<noteq> [] \<Longrightarrow> \<not> P (last xs) \<Longrightarrow> dropWhile P xs \<noteq> [] \<and> last (dropWhile P xs) = last xs"
  by (induction xs) (auto split: if_splits)

lemma replace_spaces_run:
  assumes "xs = [] \<or> \<not> is_space (last xs)"
    and "ws \<noteq> []" and "list_all is_space ws" and "ys = [] \<or> \<not> is_space (hd ys)"
  shows "replace_spaces (xs @ ws @ ys) = replace_spaces xs @ 0x5F # replace_spaces ys"
  using assms(1)
proof (induction xs rule: replace_spaces.induct)
  case 1
  show ?case using assms(2-4) by (simp add: replace_spaces_run_front)
next
  case (2 c cs)
  show ?case
  proof (cases "is_space c")
    case True
    with 2(3) have cs: "cs \<noteq> []" "\<not> is_space (last cs)" by (auto split: if_splits)
    then have dw: "dropWhile is_space cs \<noteq> []" "\<not> is_space (last (dropWhile is_space cs))"
      using last_dropWhile [of cs is_space] by simp_all
    from cs have "last cs \<in> set cs" by simp
    with cs(2) have "dropWhile is_space (cs @ ws @ ys) = dropWhile is_space cs @ ws @ ys"
      using dropWhile_append1 [of "last cs" cs is_space "ws @ ys"] by simp
    moreover have "replace_spaces (dropWhile is_space cs @ ws @ ys) =
                     replace_spaces (dropWhile is_space cs) @ 0x5F # replace_spaces ys"
      using True dw by (intro 2(1)) simp_all
    ultimately show ?thesis using True by simp
  next
    case False
    with 2(3) have "cs = [] \<or> \<not> is_space (last cs)" by (auto split: if_splits)
    with False 2(2) show ?thesis by simp
  qed
qed

section \<open>The sample runs\<close>

lemmas eval_defs = handler_defs io_defs ex_defs js_defs lit_def Let_def send_def json_def
  cols_postulaciones_def cols_quejas_def cols_postulaciones_v1_def cols_quejas_v1_def
  FOLDER_POSTULACIONES_def FOLDER_QUEJAS_def drive_url_def digits10.simps col_def
  new_events_def is_space_def

lemma ex_missing:
  "missing_required JobApplication ex_unnamed" "missing_required Complaint ex_unnamed"
  by (simp_all add: missing_required_def ex_defs truthy_def)

lemma ex_v3_unnamed:
  "status (fst (submit V3 Complaint ex_config ex_extern ex_unnamed ex_world)) = 200"
  "trace (snd (submit V3 Complaint ex_config ex_extern ex_unnamed ex_world)) =
     [Returned (Insert Quejas cols_quejas
        [JString [], JString (lit ''ana@x.com''), JString (lit ''3000000000''),
         JString (lit ''Centro''), JString (lit ''Demora''), JString (lit ''Muy lento''),
         JString [], JString (lit ''2023-11-14T22:13:20.000Z'')]),
      Returned (SendMail [Some (lit ''rh@x.co'')] None (lit ''[QUEJA] Demora - Usuario''))]"
  "map (\<lambda>r. col r ''nombre'') (quejas (snd (submit V3 Complaint ex_config ex_extern ex_unnamed
     ex_world))) = [JString []]"
  by (simp_all add: eval_defs)

lemma ex_drive_down_runs:
  "status (fst (submit V3 JobApplication ex_config ex_drive_down ex_upload ex_world)) = 500"
  "trace (snd (submit V3 JobApplication ex_config ex_drive_down ex_upload ex_world)) =
     [Returned (FilesCreate (lit ''cv.pdf'') (lit ''application/pdf'') [37, 80, 68, 70] None),
      Returned (FilesUpdate (lit ''d1'') (JString (lit ''F1''))),
      Threw (PermissionsCreate (lit ''d1''))]"
  "status (fst (submit V2 Complaint ex_config ex_create_down ex_upload ex_world)) = 500"
  "trace (snd (submit V2 Complaint ex_config ex_create_down ex_upload ex_world)) =
     [Threw (FilesCreate (lit ''cv.pdf'') (lit ''application/pdf'') [37, 80, 68, 70] None)]"
  by (simp_all add: eval_defs)

lemma ex_v3_formulario:
  "status (fst (submit V3 JobApplication ex_config ex_extern ex_request ex_world)) = 200"
  "trace (snd (submit V3 JobApplication ex_config ex_extern ex_request ex_world)) =
     [Returned (Insert Postulaciones cols_postulaciones
        [JString (lit ''Ana  Maria''), JString (lit ''ana@x.com''), JString (lit ''3000000000''),
         JString (lit ''Cajera''), JString (lit ''Muy lento''), JString [],
         JString (lit ''2023-11-14T22:13:20.000Z'')]),
      Returned (SendMail [Some (lit ''rh@x.co'')] None
        ([0xD83D, 0xDCE9] @ lit '' Nueva postulaci'' @ [0xF3] @ lit ''n - Ana  Maria''))]"
  "postulaciones (snd (submit V3 JobApplication ex_config ex_extern ex_request ex_world)) =
     [[(''id'', JNumber 1), (''nombre'', JString (lit ''Ana  Maria'')),
       (''email'', JString (lit ''ana@x.com'')), (''telefono'', JString (lit ''3000000000'')),
       (''cargo'', JString (lit ''Cajera'')), (''mensaje'', JString (lit ''Muy lento'')),
       (''archivo_url'', JString []),
       (''fecha_envio'', JString (lit ''2023-11-14T22:13:20.000Z''))]]"
  by (simp_all add: eval_defs)

lemma ex_v1_formulario:
  "status (fst (submit V1 JobApplication ex_config ex_extern ex_request ex_world)) = 200"
  "trace (snd (submit V1 JobApplication ex_config ex_extern ex_request ex_world)) =
     [Returned (Insert Postulaciones cols_postulaciones_v1
        [JString (lit ''u1''), JString (lit ''Ana  Maria''), JString (lit ''ana@x.com''),
         JString (lit ''3000000000''), JString (lit ''Cajera''), JString (lit ''Muy lento''),
         JNull, JNull, JString (lit ''10.0.0.1''), JString (lit ''curl'')]),
      Returned (SendMail [Some (lit ''rh@x.co'')] (Some [])
        (lit ''Nueva postulaci'' @ [0xF3] @ lit ''n: Ana  Maria '' @ [0x2022] @ lit '' Cajera''))]"
  "postulaciones (snd (submit V1 JobApplication ex_config ex_extern ex_request ex_world)) =
     [[(''id'', JString (lit ''u1'')), (''nombre'', JString (lit ''Ana  Maria'')),
       (''email'', JString (lit ''ana@x.com'')), (''telefono'', JString (lit ''3000000000'')),
       (''cargo'', JString (lit ''Cajera'')), (''mensaje'', JString (lit ''Muy lento'')),
       (''drive_file_id'', JNull), (''drive_file_url'', JNull),
       (''ip'', JString (lit ''10.0.0.1'')), (''user_agent'', JString (lit ''curl''))]]"
  by (simp_all add: eval_defs)

text \<open>
  The sample job application with the attachment \<^verbatim>\<open>cv.pdf\<close>, sent to the route of variant 1:
  the handler receives it without the file, stores \<^verbatim>\<open>null\<close> for the attachment and answers
  200.
\<close>

lemma ex_v1_route_drops_file:
  "upload_single ex_upload = Some ex_request"
  "fst (routes_v1 ex_config ex_extern PostFormulario ex_upload ex_world)
     = Responded (send 200 (lit ''OK''))"
  "trace (snd (routes_v1 ex_config ex_extern PostFormulario ex_upload ex_world)) =
     [Returned (Insert Postulaciones cols_postulaciones_v1
        [JString (lit ''u1''), JString (lit ''Ana  Maria''), JString (lit ''ana@x.com''),
         JString (lit ''3000000000''), JString (lit ''Cajera''), JString (lit ''Muy lento''),
         JNull, JNull, JString (lit ''10.0.0.1''), JString (lit ''curl'')]),
      Returned (SendMail [Some (lit ''rh@x.co'')] (Some [])
        (lit ''Nueva postulaci'' @ [0xF3] @ lit ''n: Ana  Maria '' @ [0x2022] @ lit '' Cajera''))]"
proof -
  show up: "upload_single ex_upload = Some ex_request"
    by (simp add: upload_single_def fileFilter_def allowed_mimetypes_def ex_defs lit_def)
  have "routes_v1 ex_config ex_extern PostFormulario ex_upload ex_world
          = (case submit V1 JobApplication ex_config ex_extern ex_request ex_world of
               (r, w') \<Rightarrow> (Responded r, w'))"
    by (simp add: routes_v1_def up)
  then show "fst (routes_v1 ex_config ex_extern PostFormulario ex_upload ex_world)
     = Responded (send 200 (lit ''OK''))"
    "trace (snd (routes_v1 ex_config ex_extern PostFormulario ex_upload ex_world)) =
     [Returned (Insert Postulaciones cols_postulaciones_v1
        [JString (lit ''u1''), JString (lit ''Ana  Maria''), JString (lit ''ana@x.com''),
         JString (lit ''3000000000''), JString (lit ''Cajera''), JString (lit ''Muy lento''),
         JNull, JNull, JString (lit ''10.0.0.1''), JString (lit ''curl'')]),
      Returned (SendMail [Some (lit ''rh@x.co'')] (Some [])
        (lit ''Nueva postulaci'' @ [0xF3] @ lit ''n: Ana  Maria '' @ [0x2022] @ lit '' Cajera''))]"
    by (simp_all add: eval_defs split: prod.splits)
qed

lemma ex_v2_upload:
  "trace (snd (submit V2 JobApplication ex_config ex_extern ex_upload ex_world)) =
     [Returned (FilesCreate (lit ''cv.pdf'') (lit ''application/pdf'') [37, 80, 68, 70] None),
      Returned (FilesUpdate (lit ''d1'') (JString (lit ''F1''))),
      Returned (PermissionsCreate (lit ''d1'')),
      Returned (Insert Postulaciones cols_postulaciones
        [JString (lit ''Ana  Maria''), JString (lit ''ana@x.com''), JString (lit ''3000000000''),
         JString (lit ''Cajera''), JString (lit ''Muy lento''),
         JString (lit ''https://drive.google.com/file/d/d1/view''),
         JString (lit ''2023-11-14T22:13:20.000Z'')]),
      Returned (SendMail [Some (lit ''rh@x.co'')] None
        ([0xD83D, 0xDCE9] @ lit '' Nueva postulaci'' @ [0xF3] @ lit ''n - Ana  Maria''))]"
  by (simp add: eval_defs)

lemma ex_v3_queja_upload:
  "trace (snd (submit V3 Complaint ex_config ex_extern ex_upload ex_world)) =
     [Returned (FilesCreate (lit ''cv.pdf'') (lit ''application/pdf'') [37, 80, 68, 70] None),
      Returned (FilesUpdate (lit ''d1'') (JString (lit ''F1''))),
      Returned (PermissionsCreate (lit ''d1'')),
      Returned (Insert Quejas cols_quejas
        [JString (lit ''Ana  Maria''), JString (lit ''ana@x.com''), JString (lit ''3000000000''),
         JString (lit ''Centro''), JString (lit ''Demora''), JString (lit ''Muy lento''),
         JString (lit ''https://drive.google.com/file/d/d1/view''),
         JString (lit ''2023-11-14T22:13:20.000Z'')]),
      Returned (SendMail [Some (lit ''rh@x.co'')] None (lit ''[QUEJA] Demora - Ana  Maria''))]"
  by (simp add: eval_defs)

lemma ex_v3_upload:
  "trace (snd (submit V3 JobApplication ex_config ex_extern ex_upload ex_world)) =
     [Returned (FilesCreate (lit ''cv.pdf'') (lit ''application/pdf'') [37, 80, 68, 70] None),
      Returned (FilesUpdate (lit ''d1'') (JString (lit ''F1''))),
      Returned (PermissionsCreate (lit ''d1'')),
      Returned (Insert Postulaciones cols_postulaciones
        [JString (lit ''Ana  Maria''), JString (lit ''ana@x.com''), JString (lit ''3000000000''),
         JString (lit ''Cajera''), JString (lit ''Muy lento''),
         JString (lit ''https://drive.google.com/file/d/d1/view''),
         JString (lit ''2023-11-14T22:13:20.000Z'')]),
      Returned (SendMail [Some (lit ''rh@x.co'')] None
        ([0xD83D, 0xDCE9] @ lit '' Nueva postulaci'' @ [0xF3] @ lit ''n - Ana  Maria''))]"
  by (simp add: eval_defs)

lemma ex_upload_req:
  "req_file ex_upload = Some ex_file" "body ex_upload = Some ex_body"
  by (simp_all add: ex_defs)

lemma ex_mail_down_runs:
  "status (fst (submit V1 JobApplication ex_config ex_mail_down ex_request ex_world)) = 500"
  "trace (snd (submit V1 JobApplication ex_config ex_mail_down ex_request ex_world)) =
     [Returned (Insert Postulaciones cols_postulaciones_v1
        [JString (lit ''u1''), JString (lit ''Ana  Maria''), JString (lit ''ana@x.com''),
         JString (lit ''3000000000''), JString (lit ''Cajera''), JString (lit ''Muy lento''),
         JNull, JNull, JString (lit ''10.0.0.1''), JString (lit ''curl'')]),
      Threw (SendMail [Some (lit ''rh@x.co'')] (Some [])
        (lit ''Nueva postulaci'' @ [0xF3] @ lit ''n: Ana  Maria '' @ [0x2022] @ lit '' Cajera''))]"
  "length (postulaciones (snd (submit V1 JobApplication ex_config ex_mail_down ex_request
     ex_world))) = 1"
  "status (fst (submit V2 Complaint ex_config ex_mail_down ex_request ex_world)) = 500"
  "trace (snd (submit V2 Complaint ex_config ex_mail_down ex_request ex_world)) =
     [Returned (Insert Quejas cols_quejas
        [JString (lit ''Ana  Maria''), JString (lit ''ana@x.com''), JString (lit ''3000000000''),
         JString (lit ''Centro''), JString (lit ''Demora''), JString (lit ''Muy lento''),
         JString [], JString (lit ''2023-11-14T22:13:20.000Z'')]),
      Threw (SendMail [Some (lit ''rh@x.co'')] None (lit ''[QUEJA] Demora - Ana  Maria''))]"
  "length (quejas (snd (submit V2 Complaint ex_config ex_mail_down ex_request ex_world))) = 1"
  "status (fst (submit V3 Complaint ex_config ex_mail_down ex_request ex_world)) = 500"
  "trace (snd (submit V3 Complaint ex_config ex_mail_down ex_request ex_world)) =
     [Returned (Insert Quejas cols_quejas
        [JString (lit ''Ana  Maria''), JString (lit ''ana@x.com''), JString (lit ''3000000000''),
         JString (lit ''Centro''), JString (lit ''Demora''), JString (lit ''Muy lento''),
         JString [], JString (lit ''2023-11-14T22:13:20.000Z'')]),
      Threw (SendMail [Some (lit ''rh@x.co'')] None (lit ''[QUEJA] Demora - Ana  Maria''))]"
  "length (quejas (snd (submit V3 Complaint ex_config ex_mail_down ex_request ex_world))) = 1"
  by (simp_all add: eval_defs)




lemma ex_no_message_run:
  "map (\<lambda>r. col r ''mensaje'')
     (postulaciones (snd (submit V1 JobApplication ex_config ex_extern ex_no_message ex_world)))
     = [JString []]"
  "map (\<lambda>r. col r ''mensaje'')
     (postulaciones (snd (submit V3 JobApplication ex_config ex_extern ex_no_message ex_world)))
     = [JString []]"
  by (simp_all add: eval_defs)

section \<open>The submission handlers\<close>

text \<open>
  \<^bold>\<open>Claim C1 (as amended).\<close> The claim reads: for every submission request in which a
  required field of its kind is missing or empty, the handler returns the missing-fields
  error (400) and performs no external call. This holds of variant 1 only, which is what the
  theorem states: the answer is 400 with the text \<^verbatim>\<open>Faltan campos obligatorios.\<close>, and the world is
  left exactly as it was (no event, no row). Variants 2 and 3 check no field at all: the
  concrete case after the theorem shows variant 3 storing and notifying a complaint whose
  name is empty.
\<close>

theorem v1_missing_fields_refused:
  assumes "missing_required k req"
  shows "submit V1 k cfg ora req w = (send 400 (lit ''Faltan campos obligatorios.''), w)
         \<and> new_events w (snd (submit V1 k cfg ora req w)) = []"
  using v1_refuses [OF assms, of cfg ora w] by simp


text \<open>The sample job application with an empty name, sent to variant 1.\<close>

theorem v1_missing_fields_refused_witness:
  "missing_required JobApplication ex_unnamed
   \<and> submit V1 JobApplication ex_config ex_extern ex_unnamed ex_world
       = (send 400 (lit ''Faltan campos obligatorios.''), ex_world)
   \<and> new_events ex_world (snd (submit V1 JobApplication ex_config ex_extern ex_unnamed ex_world))
       = []"
  using ex_missing(1)
        v1_missing_fields_refused [OF ex_missing(1), of ex_config ex_extern ex_world]
  by simp

text \<open>
  The claim as stated fails in variant 3: the sample complaint with an empty name (a required
  field of a complaint) is answered with 200 after an \<^verbatim>\<open>INSERT\<close> and a mail, and the row with
  the empty name is in the table.
\<close>

theorem v3_accepts_empty_required_field:
  "missing_required Complaint ex_unnamed
   \<and> status (fst (submit V3 Complaint ex_config ex_extern ex_unnamed ex_world)) = 200
   \<and> trace (snd (submit V3 Complaint ex_config ex_extern ex_unnamed ex_world)) =
       [Returned (Insert Quejas cols_quejas
          [JString [], JString (lit ''ana@x.com''), JString (lit ''3000000000''),
           JString (lit ''Centro''), JString (lit ''Demora''), JString (lit ''Muy lento''),
           JString [], JString (lit ''2023-11-14T22:13:20.000Z'')]),
        Returned (SendMail [Some (lit ''rh@x.co'')] None (lit ''[QUEJA] Demora - Usuario''))]
   \<and> map (\<lambda>r. col r ''nombre'') (quejas (snd (submit V3 Complaint ex_config ex_extern ex_unnamed
         ex_world))) = [JString []]"
  using ex_missing(2) ex_v3_unnamed by simp

text \<open>
  \<^bold>\<open>Claim C3.\<close> For every submission request with an attachment: if the upload step fails
  (throws), the pipeline aborts and the request fails; no row is inserted into the record
  store and no notification is sent (the store's row count is unchanged afterwards).

  In all three variants and for both kinds: when one of the calls to the storage gateway made
  for the request threw, the request had an attachment, the answer is 500, both tables are as
  before, and every call made for the request was a call to the storage gateway, so neither
  an \<^verbatim>\<open>INSERT\<close> nor a mail was even attempted. (In variant 1 the premise describes the
  handler alone: behind its file filter no storage call is ever made, see
  \<open>routes_v1_never_uploads\<close>.)
\<close>

theorem upload_failure_aborts:
  assumes "submit v k cfg ora req w = (r, w')"
    and "\<exists>e \<in> set (new_events w w'). is_threw e \<and> is_drive_call (call_of e)"
  shows "req_file req \<noteq> None \<and> status r = 500
         \<and> postulaciones w' = postulaciones w \<and> quejas w' = quejas w
         \<and> (\<forall>e \<in> set (new_events w w'). is_drive_call (call_of e))"
  using assms(1)
proof (cases rule: submit_cases)
  case (refused c)
  with assms(2) show ?thesis by simp
next
  case (upload_threw des)
  then show ?thesis by (simp add: list_all_iff)
next
  case (insert_threw des cols args)
  with assms(2) show ?thesis by (auto simp: list_ex_iff)
next
  case (stored des cols args mes)
  with assms(2) show ?thesis by (auto simp: list_ex_iff list_all_iff mail_not_drive)
qed


text \<open>
  The sample job application with the attachment \<^verbatim>\<open>cv.pdf\<close>, sent to variant 3 while the
  permission call of the storage gateway throws: the object is created and moved to its
  folder, the permission call throws, and that is all that happens. The sample complaint with
  the same attachment, sent to variant 2 while the creation of the object throws: the one
  call that throws is the only call. Both are answered with 500 and leave the tables empty.
\<close>

theorem upload_failure_aborts_witness:
  "trace (snd (submit V3 JobApplication ex_config ex_drive_down ex_upload ex_world)) =
     [Returned (FilesCreate (lit ''cv.pdf'') (lit ''application/pdf'') [37, 80, 68, 70] None),
      Returned (FilesUpdate (lit ''d1'') (JString (lit ''F1''))),
      Threw (PermissionsCreate (lit ''d1''))]
   \<and> status (fst (submit V3 JobApplication ex_config ex_drive_down ex_upload ex_world)) = 500
   \<and> postulaciones (snd (submit V3 JobApplication ex_config ex_drive_down ex_upload ex_world)) = []
   \<and> quejas (snd (submit V3 JobApplication ex_config ex_drive_down ex_upload ex_world)) = []
   \<and> trace (snd (submit V2 Complaint ex_config ex_create_down ex_upload ex_world)) =
       [Threw (FilesCreate (lit ''cv.pdf'') (lit ''application/pdf'') [37, 80, 68, 70] None)]
   \<and> status (fst (submit V2 Complaint ex_config ex_create_down ex_upload ex_world)) = 500
   \<and> postulaciones (snd (submit V2 Complaint ex_config ex_create_down ex_upload ex_world)) = []
   \<and> quejas (snd (submit V2 Complaint ex_config ex_create_down ex_upload ex_world)) = []"
proof -
  have threw3: "\<exists>e \<in> set (new_events ex_world
                  (snd (submit V3 JobApplication ex_config ex_drive_down ex_upload ex_world))).
                 is_threw e \<and> is_drive_call (call_of e)"
    unfolding new_events_def ex_drive_down_runs by (simp add: ex_world_def)
  have threw2: "\<exists>e \<in> set (new_events ex_world
                  (snd (submit V2 Complaint ex_config ex_create_down ex_upload ex_world))).
                 is_threw e \<and> is_drive_call (call_of e)"
    unfolding new_events_def ex_drive_down_runs by (simp add: ex_world_def)
  show ?thesis
    using upload_failure_aborts [OF surjective_pairing threw3]
          upload_failure_aborts [OF surjective_pairing threw2]
          ex_drive_down_runs(2,4)
    by (simp add: ex_world_def)
qed

text \<open>
  \<^bold>\<open>Claim C4.\<close> For every valid job application without attachment, the handler makes no
  call to the storage gateway, and the persisted row's attachment URL is the empty
  attachment URL.

  For a job application without attachment, in every variant: no call made for the request
  is a storage call; a row added to the table has no attachment, which variant 1 stores as
  \<^verbatim>\<open>null\<close> in \<^verbatim>\<open>drive_file_url\<close> and \<^verbatim>\<open>drive_file_id\<close>, and variants 2 and 3 as the empty string
  in \<^verbatim>\<open>archivo_url\<close>; and a row is added whenever the handler does not refuse the request
  and the \<^verbatim>\<open>INSERT\<close> returns. (Variant 2 refuses every job application without attachment,
  so there the row never exists.)
\<close>

theorem no_attachment_no_upload:
  assumes "submit v JobApplication cfg ora req w = (r, w')" and "req_file req = None"
  shows "(\<forall>e \<in> set (new_events w w'). \<not> is_drive_call (call_of e))
         \<and> (\<forall>row. postulaciones w' = postulaciones w @ [row] \<longrightarrow>
               (if v = V1 then col row ''drive_file_url'' = JNull \<and> col row ''drive_file_id'' = JNull
                else col row ''archivo_url'' = JString []))
         \<and> (refusal v JobApplication req = None \<and> execute_ok ora \<longrightarrow>
               (\<exists>row. postulaciones w' = postulaciones w @ [row]))"
  using assms(1)
proof (cases rule: submit_cases)
  case (refused c)
  then show ?thesis by simp
next
  case (upload_threw des)
  with assms(2) show ?thesis by simp
next
  case (insert_threw des cols args)
  with assms(2) have "des = []" by (simp add: upload_facts_no_file)
  with insert_threw show ?thesis by simp
next
  case (stored des cols args mes)
  with assms(2) have des: "des = []" by (simp add: upload_facts_no_file)
  define row where "row = (if ''id'' \<in> set (map fst (zip cols args)) then zip cols args
       else (''id'', JNumber (seq_of Postulaciones w + 1)) # zip cols args)"
  have rows: "postulaciones w' = postulaciones w @ [row]"
    using stored(8) by (simp add: tables_rows_of rows_of_store_row row_def)
  have events: "\<forall>e \<in> set (new_events w w'). \<not> is_drive_call (call_of e)"
    using stored(6,8) des by (auto simp: list_all_iff dest: mail_not_drive)
  have url: "if v = V1 then col row ''drive_file_url'' = JNull \<and> col row ''drive_file_id'' = JNull
             else col row ''archivo_url'' = JString []"
    unfolding row_def
    by (rule no_file_row [OF stored(7) assms(2)])
  show ?thesis
    using events url by (simp add: rows)
qed


text \<open>
  The sample job application, which has no attachment, sent to variant 3 and to variant 1:
  an \<^verbatim>\<open>INSERT\<close> and a mail are the only calls, and the stored row has the empty string,
  respectively \<^verbatim>\<open>null\<close>, for its attachment.
\<close>

theorem no_attachment_no_upload_witness:
  "req_file ex_request = None
   \<and> list_all (\<lambda>e. \<not> is_drive_call (call_of e))
        (new_events ex_world (snd (submit V3 JobApplication ex_config ex_extern ex_request ex_world)))
   \<and> map (\<lambda>r. col r ''archivo_url'')
        (postulaciones (snd (submit V3 JobApplication ex_config ex_extern ex_request ex_world)))
       = [JString []]
   \<and> list_all (\<lambda>e. \<not> is_drive_call (call_of e))
        (new_events ex_world (snd (submit V1 JobApplication ex_config ex_extern ex_request ex_world)))
   \<and> map (\<lambda>r. (col r ''drive_file_id'', col r ''drive_file_url''))
        (postulaciones (snd (submit V1 JobApplication ex_config ex_extern ex_request ex_world)))
       = [(JNull, JNull)]"
proof -
  have nofile: "req_file ex_request = None"
    by (simp add: ex_request_def)
  show ?thesis
    using nofile
          no_attachment_no_upload [OF surjective_pairing nofile,
            where v = V3 and cfg = ex_config and ora = ex_extern and w = ex_world]
          no_attachment_no_upload [OF surjective_pairing nofile,
            where v = V1 and cfg = ex_config and ora = ex_extern and w = ex_world]
          ex_v3_formulario(3) ex_v1_formulario(3)
    by (simp add: list_all_iff col_def)
qed

text \<open>
  \<^bold>\<open>Claim C5 (as amended).\<close> The claim reads: for every submission with an attachment, the
  object created at the storage gateway is named \<^verbatim>\<open><PREFIX>_<sanitized-name>_<timestamp>\<close>,
  with prefix \<^verbatim>\<open>HV\<close> for a job application and \<^verbatim>\<open>QUEJA\<close> for a complaint, where sanitization
  replaces every run of white space in the submitter's name by one underscore. Variants 2
  and 3 do not derive a name: they create the object under the uploaded file's original name
  (\<^verbatim>\<open>name: originalname\<close>), which is what the theorem states. A concrete case in which the
  two names differ follows the witness.

  Only the handlers of variant 1 build the derived name, and they are never handed a file
  (\<open>upload_single_drops_file\<close>): variant 1 creates no object at all, so nothing is stated
  of it here.

  The theorem: in variants 2 and 3, for either kind, when the request has a body and an
  attachment, the first call made for it is the creation of the object, under the
  attachment's original name and with its media type and bytes.
\<close>

theorem attachment_keeps_original_name:
  assumes "submit v k cfg ora req w = (r, w')" and "v \<noteq> V1"
    and "req_file req = Some f" and "body req = Some b"
  shows "\<exists>ev rest parents. new_events w w' = ev # rest
           \<and> call_of ev = FilesCreate (originalname f) (mimetype f) (buffer f) parents"
proof -
  have ref: "refusal v k req = None"
    using assms(2-4) by (simp add: refusal_def)
  have name: "object_name v k ora req f = originalname f"
    using assms(2) by (simp add: object_name_def)
  from assms(1) show ?thesis
  proof (cases rule: submit_cases)
    case (refused c)
    with ref show ?thesis by simp
  next
    case (upload_threw des)
    with assms(3) name show ?thesis by (auto simp: upload_facts_def)
  next
    case (insert_threw des cols args)
    with assms(3) name show ?thesis by (auto simp: upload_facts_def)
  next
    case (stored des cols args mes)
    with assms(3) name show ?thesis by (auto simp: upload_facts_def)
  qed
qed


text \<open>
  The sample request with the attachment \<^verbatim>\<open>cv.pdf\<close>, sent as a job application to variant 2
  and as a complaint to variant 3: both create the object \<^verbatim>\<open>cv.pdf\<close>.
\<close>

theorem attachment_keeps_original_name_witness:
  "req_file ex_upload = Some ex_file
   \<and> body ex_upload = Some ex_body
   \<and> call_of (hd (new_events ex_world
         (snd (submit V2 JobApplication ex_config ex_extern ex_upload ex_world))))
       = FilesCreate (lit ''cv.pdf'') (lit ''application/pdf'') [37, 80, 68, 70] None
   \<and> call_of (hd (new_events ex_world
         (snd (submit V3 Complaint ex_config ex_extern ex_upload ex_world))))
       = FilesCreate (lit ''cv.pdf'') (lit ''application/pdf'') [37, 80, 68, 70] None"
proof -
  have v2: "V2 \<noteq> V1" and v3: "V3 \<noteq> V1" by simp_all
  note two = attachment_keeps_original_name [OF surjective_pairing v2 ex_upload_req,
      where k = JobApplication and cfg = ex_config and ora = ex_extern and w = ex_world]
  note three = attachment_keeps_original_name [OF surjective_pairing v3 ex_upload_req,
      where k = Complaint and cfg = ex_config and ora = ex_extern and w = ex_world]
  have first2: "call_of (hd (new_events ex_world
         (snd (submit V2 JobApplication ex_config ex_extern ex_upload ex_world))))
       = FilesCreate (lit ''cv.pdf'') (lit ''application/pdf'') [37, 80, 68, 70] None"
    unfolding new_events_def ex_v2_upload by (simp add: ex_world_def)
  have first3: "call_of (hd (new_events ex_world
         (snd (submit V3 Complaint ex_config ex_extern ex_upload ex_world))))
       = FilesCreate (lit ''cv.pdf'') (lit ''application/pdf'') [37, 80, 68, 70] None"
    unfolding new_events_def ex_v3_queja_upload by (simp add: ex_world_def)
  show ?thesis
    using two three ex_upload_req first2 first3 by simp
qed

text \<open>
  The claim as stated fails in variant 3: for the same request the object is created under
  the file's own name \<^verbatim>\<open>cv.pdf\<close>, which is not the derived name.
\<close>

theorem v3_object_keeps_original_name:
  "req_file ex_upload = Some ex_file
   \<and> call_of (hd (new_events ex_world
         (snd (submit V3 JobApplication ex_config ex_extern ex_upload ex_world))))
       = FilesCreate (lit ''cv.pdf'') (lit ''application/pdf'') [37, 80, 68, 70] None
   \<and> lit ''cv.pdf'' \<noteq> lit ''HV'' @ lit ''_'' @ replace_spaces (lit ''Ana  Maria'') @ lit ''_''
                          @ digits10 1700000000000"
proof -
  have "call_of (hd (new_events ex_world
         (snd (submit V3 JobApplication ex_config ex_extern ex_upload ex_world))))
       = FilesCreate (lit ''cv.pdf'') (lit ''application/pdf'') [37, 80, 68, 70] None"
    unfolding new_events_def ex_v3_upload by (simp add: ex_world_def)
  then show ?thesis
    using ex_upload_req(1) by (simp add: lit_def)
qed

text \<open>
  \<^bold>\<open>Claim C7 (as amended).\<close> The claim reads: in two of the three variants, a failure of the
  notifier after a successful persistence does not change the outcome, the request is still
  answered with 200. In the code all three variants await the mail inside the same
  \<^verbatim>\<open>try\<close> block as everything else, so the opposite holds: in every variant and for both
  kinds, when the mail call made for the request threw, the answer is 500, although the row
  has been stored and stays stored (a concrete case in each variant follows the theorem).
\<close>

theorem notify_failure_fails_request:
  assumes "submit v k cfg ora req w = (r, w')"
    and "\<exists>e \<in> set (new_events w w'). is_threw e \<and> is_mail_call (call_of e)"
  shows "status r = 500
         \<and> (\<exists>row. rows_of (table_of k) w' = rows_of (table_of k) w @ [row])"
  using assms(1)
proof (cases rule: submit_cases)
  case (refused c)
  with assms(2) show ?thesis by simp
next
  case (upload_threw des)
  with assms(2) show ?thesis by (auto simp: list_all_iff dest: mail_not_drive)
next
  case (insert_threw des cols args)
  with assms(2) show ?thesis by (auto simp: list_all_iff dest: mail_not_drive)
next
  case (stored des cols args mes)
  with assms(2) have "list_ex is_threw mes"
    by (auto simp: list_ex_iff list_all_iff dest: mail_not_drive)
  with stored show ?thesis by (simp add: rows_of_store_row)
qed


text \<open>
  The sample job application sent to variant 1 while the mail transport throws: the row is
  stored, the mail call throws, the answer is 500.
\<close>

theorem notify_failure_fails_request_witness:
  "trace (snd (submit V1 JobApplication ex_config ex_mail_down ex_request ex_world)) =
     [Returned (Insert Postulaciones cols_postulaciones_v1
        [JString (lit ''u1''), JString (lit ''Ana  Maria''), JString (lit ''ana@x.com''),
         JString (lit ''3000000000''), JString (lit ''Cajera''), JString (lit ''Muy lento''),
         JNull, JNull, JString (lit ''10.0.0.1''), JString (lit ''curl'')]),
      Threw (SendMail [Some (lit ''rh@x.co'')] (Some [])
        (lit ''Nueva postulaci'' @ [0xF3] @ lit ''n: Ana  Maria '' @ [0x2022] @ lit '' Cajera''))]
   \<and> status (fst (submit V1 JobApplication ex_config ex_mail_down ex_request ex_world)) = 500
   \<and> length (rows_of Postulaciones
        (snd (submit V1 JobApplication ex_config ex_mail_down ex_request ex_world)))
       = length (rows_of Postulaciones ex_world) + 1"
proof -
  have threw: "\<exists>e \<in> set (new_events ex_world
                  (snd (submit V1 JobApplication ex_config ex_mail_down ex_request ex_world))).
                 is_threw e \<and> is_mail_call (call_of e)"
    unfolding new_events_def ex_mail_down_runs by (simp add: ex_world_def)
  from notify_failure_fails_request [OF surjective_pairing threw]
  obtain row where "status (fst (submit V1 JobApplication ex_config ex_mail_down ex_request
                       ex_world)) = 500"
    and "rows_of (table_of JobApplication)
           (snd (submit V1 JobApplication ex_config ex_mail_down ex_request ex_world))
         = rows_of (table_of JobApplication) ex_world @ [row]"
    by blast
  then show ?thesis
    using ex_mail_down_runs(2) by simp
qed

text \<open>
  The claim as stated fails: with the row stored and the mail call throwing, variant 1,
  variant 2 and variant 3 all answer 500, so in none of the three, let alone in two, is the
  request reported successful.
\<close>

theorem notify_failure_gives_500_in_all_variants:
  "status (fst (submit V1 JobApplication ex_config ex_mail_down ex_request ex_world)) = 500
   \<and> length (postulaciones (snd (submit V1 JobApplication ex_config ex_mail_down ex_request
        ex_world))) = 1
   \<and> is_threw (last (trace (snd (submit V1 JobApplication ex_config ex_mail_down ex_request
        ex_world))))
   \<and> status (fst (submit V2 Complaint ex_config ex_mail_down ex_request ex_world)) = 500
   \<and> length (quejas (snd (submit V2 Complaint ex_config ex_mail_down ex_request ex_world))) = 1
   \<and> is_threw (last (trace (snd (submit V2 Complaint ex_config ex_mail_down ex_request
        ex_world))))
   \<and> status (fst (submit V3 Complaint ex_config ex_mail_down ex_request ex_world)) = 500
   \<and> length (quejas (snd (submit V3 Complaint ex_config ex_mail_down ex_request ex_world))) = 1
   \<and> is_threw (last (trace (snd (submit V3 Complaint ex_config ex_mail_down ex_request
        ex_world))))"
  unfolding ex_mail_down_runs by simp





text \<open>
  \<^bold>\<open>Claim C10.\<close> For every job application in which the optional message is absent, the
  row inserted into the record store has the empty string in its message column.

  In every variant: when the message is absent from the body and the request has added a
  row to the table, that row is the only one added and its \<^verbatim>\<open>mensaje\<close> is the empty string.
\<close>

theorem absent_message_stored_empty:
  assumes "submit v JobApplication cfg ora req w = (r, w')"
    and "case body req of None \<Rightarrow> True | Some b \<Rightarrow> mensaje b = None"
    and "postulaciones w' \<noteq> postulaciones w"
  shows "\<exists>row. postulaciones w' = postulaciones w @ [row] \<and> col row ''mensaje'' = JString []"
  using assms(1)
proof (cases rule: submit_cases)
  case (refused c)
  with assms(3) show ?thesis by simp
next
  case (upload_threw des)
  with assms(3) show ?thesis by simp
next
  case (insert_threw des cols args)
  with assms(3) show ?thesis by simp
next
  case (stored des cols args mes)
  from stored(7) assms(2) have "map_of (zip cols args) ''mensaje'' = Some (JString [])"
    by (auto simp: row_facts_def or_empty_def)
  then have "col (if ''id'' \<in> set (map fst (zip cols args)) then zip cols args
                  else (''id'', JNumber (seq_of Postulaciones w + 1)) # zip cols args) ''mensaje''
             = JString []"
    by (intro col_stored) simp_all
  moreover have "postulaciones w' = postulaciones w @
      [if ''id'' \<in> set (map fst (zip cols args)) then zip cols args
       else (''id'', JNumber (seq_of Postulaciones w + 1)) # zip cols args]"
    using stored(8) by (simp add: tables_rows_of rows_of_store_row)
  ultimately show ?thesis by blast
qed


text \<open>
  The sample job application without its message, sent to variant 1 and to variant 3: the
  stored row has the empty string as message.
\<close>

theorem absent_message_stored_empty_witness:
  "map (\<lambda>r. col r ''mensaje'')
     (postulaciones (snd (submit V1 JobApplication ex_config ex_extern ex_no_message ex_world)))
     = [JString []]
   \<and> map (\<lambda>r. col r ''mensaje'')
     (postulaciones (snd (submit V3 JobApplication ex_config ex_extern ex_no_message ex_world)))
     = [JString []]"
proof -
  have absent: "case body ex_no_message of None \<Rightarrow> True | Some b \<Rightarrow> mensaje b = None"
    by (simp add: ex_defs)
  have grew1: "postulaciones (snd (submit V1 JobApplication ex_config ex_extern ex_no_message
                  ex_world)) \<noteq> postulaciones ex_world"
    using ex_no_message_run(1) by (auto simp: ex_world_def)
  have grew3: "postulaciones (snd (submit V3 JobApplication ex_config ex_extern ex_no_message
                  ex_world)) \<noteq> postulaciones ex_world"
    using ex_no_message_run(2) by (auto simp: ex_world_def)
  from absent_message_stored_empty [OF surjective_pairing absent grew1]
       absent_message_stored_empty [OF surjective_pairing absent grew3]
  show ?thesis
    by (auto simp: ex_world_def)
qed

section \<open>The report export\<close>

lemma order_by_fecha_envio_desc_props:
  "mset (order_by_fecha_envio_desc rs) = mset rs"
  "sorted (rev (map fecha_key (order_by_fecha_envio_desc rs)))"
  "order_by_fecha_envio_desc rs = [] \<longleftrightarrow> rs = []"
proof -
  show "mset (order_by_fecha_envio_desc rs) = mset rs"
    by (simp add: order_by_fecha_envio_desc_def)
  show "sorted (rev (map fecha_key (order_by_fecha_envio_desc rs)))"
    by (simp add: order_by_fecha_envio_desc_def rev_map)
  have "length (order_by_fecha_envio_desc rs) = length rs"
    by (simp add: order_by_fecha_envio_desc_def)
  then show "order_by_fecha_envio_desc rs = [] \<longleftrightarrow> rs = []"
    by (metis length_0_conv)
qed

text \<open>Rows with the same key keep the order in which they were inserted.\<close>

lemma order_by_fecha_envio_desc_ties:
  "filter (\<lambda>r. fecha_key r = k) (order_by_fecha_envio_desc rs) = filter (\<lambda>r. fecha_key r = k) rs"
proof -
  have "filter (\<lambda>r. fecha_key r = k) (order_by_fecha_envio_desc rs)
          = rev (filter (\<lambda>r. fecha_key r = k) (sort_key fecha_key (rev rs)))"
    by (simp add: order_by_fecha_envio_desc_def rev_filter)
  also have "\<dots> = rev (filter (\<lambda>r. fecha_key r = k) (rev rs))"
    by (simp only: sort_key_stable)
  also have "\<dots> = filter (\<lambda>r. fecha_key r = k) rs"
    by (simp add: rev_filter)
  finally show ?thesis .
qed

lemma descargar_postulaciones_ok:
  "execute_ok ora \<Longrightarrow>
     fst (descargar_postulaciones toLocaleString parse ora w) =
       (if postulaciones w = [] then send 404 (lit ''No hay postulaciones registradas.'')
        else send 200
               (0xFEFF # parse (map fst (dataLimpia toLocaleString
                                           (hd (order_by_fecha_envio_desc (postulaciones w)))))
                           (lit '';'')
                           (map (dataLimpia toLocaleString)
                              (order_by_fecha_envio_desc (postulaciones w)))))"
  by (simp add: descargar_postulaciones_def execute_select_def and_then_def attempt_def
      ok_unit_def order_by_fecha_envio_desc_props(3) bom_def Let_def hd_map)

lemma ex_order:
  "order_by_fecha_envio_desc (postulaciones ex_store) = [ex_row_new, ex_row_old]"
  by (simp add: order_by_fecha_envio_desc_def fecha_key_def sql_order_key_def col_def
      ex_store_def ex_row_old_def ex_row_new_def ex_world_def lit_def)

text \<open>
  \<^bold>\<open>Claim C6.\<close> The CSV export (\<^verbatim>\<open>GET /api/descargar-postulaciones\<close>) returns 404 when the
  job-application table has no rows; when it has at least one, the body begins with a
  byte-order mark, uses \<^verbatim>\<open>;\<close> as the field delimiter, and lists the rows in descending order of
  submission timestamp.

  For the handler shared by variants 2 and 3, when the \<^verbatim>\<open>SELECT\<close> returns: with an empty
  table the answer is 404; otherwise it is 200 and the body is U+FEFF followed by what the
  parser makes, with the seven column names of the source (\<^verbatim>\<open>Nombre\<close>, \<^verbatim>\<open>Correo\<close>, the word
  for telephone with its accented letter U+00E9, \<^verbatim>\<open>Cargo\<close>, \<^verbatim>\<open>Mensaje\<close>,
  \<^verbatim>\<open>Archivo (Google Drive)\<close>, and the date column with its accented letter U+00ED) and the
  delimiter \<^verbatim>\<open>;\<close>, of one object per row of \<open>rs\<close>, in the order of \<open>rs\<close>. Each object carries
  under these seven names the row's \<^verbatim>\<open>nombre\<close>, \<^verbatim>\<open>email\<close>, \<^verbatim>\<open>telefono\<close>, \<^verbatim>\<open>cargo\<close>,
  \<^verbatim>\<open>mensaje\<close> and \<^verbatim>\<open>archivo_url\<close> as stored, and its \<^verbatim>\<open>fecha_envio\<close> as formatted for
  display. \<open>rs\<close> holds exactly the rows of the table, and their \<^verbatim>\<open>fecha_envio\<close>, read front
  to back, never increases in the store's order of values.
\<close>

theorem export_csv:
  assumes "execute_ok ora"
  shows "(postulaciones w = [] \<longrightarrow>
            fst (descargar_postulaciones toLocaleString parse ora w)
              = send 404 (lit ''No hay postulaciones registradas.''))
         \<and> (postulaciones w \<noteq> [] \<longrightarrow>
              (\<exists>rs. mset rs = mset (postulaciones w)
                 \<and> sorted (rev (map (\<lambda>r. sql_order_key (col r ''fecha_envio'')) rs))
                 \<and> fst (descargar_postulaciones toLocaleString parse ora w)
                     = send 200
                         (0xFEFF #
                          parse [lit ''Nombre'', lit ''Correo'', lit ''Tel'' @ [0xE9] @ lit ''fono'',
                                 lit ''Cargo'', lit ''Mensaje'', lit ''Archivo (Google Drive)'',
                                 lit ''Fecha de Env'' @ [0xED] @ lit ''o'']
                            (lit '';'')
                            (map (\<lambda>r. [(lit ''Nombre'', col r ''nombre''),
                                       (lit ''Correo'', col r ''email''),
                                       (lit ''Tel'' @ [0xE9] @ lit ''fono'', col r ''telefono''),
                                       (lit ''Cargo'', col r ''cargo''),
                                       (lit ''Mensaje'', col r ''mensaje''),
                                       (lit ''Archivo (Google Drive)'', col r ''archivo_url''),
                                       (lit ''Fecha de Env'' @ [0xED] @ lit ''o'',
                                        JString (toLocaleString (col r ''fecha_envio'')))])
                               rs))))"
proof (intro conjI impI)
  assume "postulaciones w = []"
  with assms show "fst (descargar_postulaciones toLocaleString parse ora w)
                     = send 404 (lit ''No hay postulaciones registradas.'')"
    by (simp add: descargar_postulaciones_ok)
next
  assume rows: "postulaciones w \<noteq> []"
  let ?rs = "order_by_fecha_envio_desc (postulaciones w)"
  have key: "fecha_key = (\<lambda>r. sql_order_key (col r ''fecha_envio''))"
    by (simp add: fun_eq_iff fecha_key_def)
  have "mset ?rs = mset (postulaciones w)"
    by (rule order_by_fecha_envio_desc_props(1))
  moreover have "sorted (rev (map (\<lambda>r. sql_order_key (col r ''fecha_envio'')) ?rs))"
    using order_by_fecha_envio_desc_props(2) [of "postulaciones w"] by (simp only: key)
  moreover have "fst (descargar_postulaciones toLocaleString parse ora w)
      = send 200
          (0xFEFF #
           parse [lit ''Nombre'', lit ''Correo'', lit ''Tel'' @ [0xE9] @ lit ''fono'',
                  lit ''Cargo'', lit ''Mensaje'', lit ''Archivo (Google Drive)'',
                  lit ''Fecha de Env'' @ [0xED] @ lit ''o'']
             (lit '';'')
             (map (\<lambda>r. [(lit ''Nombre'', col r ''nombre''),
                        (lit ''Correo'', col r ''email''),
                        (lit ''Tel'' @ [0xE9] @ lit ''fono'', col r ''telefono''),
                        (lit ''Cargo'', col r ''cargo''),
                        (lit ''Mensaje'', col r ''mensaje''),
                        (lit ''Archivo (Google Drive)'', col r ''archivo_url''),
                        (lit ''Fecha de Env'' @ [0xED] @ lit ''o'',
                         JString (toLocaleString (col r ''fecha_envio'')))])
                ?rs))"
    using assms rows by (simp add: descargar_postulaciones_ok dataLimpia_def [abs_def])
  ultimately show "\<exists>rs. mset rs = mset (postulaciones w)
                 \<and> sorted (rev (map (\<lambda>r. sql_order_key (col r ''fecha_envio'')) rs))
                 \<and> fst (descargar_postulaciones toLocaleString parse ora w)
                     = send 200
                         (0xFEFF #
                          parse [lit ''Nombre'', lit ''Correo'', lit ''Tel'' @ [0xE9] @ lit ''fono'',
                                 lit ''Cargo'', lit ''Mensaje'', lit ''Archivo (Google Drive)'',
                                 lit ''Fecha de Env'' @ [0xED] @ lit ''o'']
                            (lit '';'')
                            (map (\<lambda>r. [(lit ''Nombre'', col r ''nombre''),
                                       (lit ''Correo'', col r ''email''),
                                       (lit ''Tel'' @ [0xE9] @ lit ''fono'', col r ''telefono''),
                                       (lit ''Cargo'', col r ''cargo''),
                                       (lit ''Mensaje'', col r ''mensaje''),
                                       (lit ''Archivo (Google Drive)'', col r ''archivo_url''),
                                       (lit ''Fecha de Env'' @ [0xED] @ lit ''o'',
                                        JString (toLocaleString (col r ''fecha_envio'')))])
                               rs))"
    by (intro exI [of _ ?rs] conjI)
qed

text \<open>
  On the empty sample store the export answers 404. On the store with the application of
  2023 inserted before the one of 2024, the body is the mark followed by the parser's
  rendering, with the seven column names and the delimiter \<^verbatim>\<open>;\<close>, of the 2024 row and then the
  2023 row, each with its seven cells.
\<close>

theorem export_csv_witness:
  "execute_ok ex_extern
   \<and> fst (descargar_postulaciones ex_toLocaleString ex_parse ex_extern ex_world)
       = send 404 (lit ''No hay postulaciones registradas.'')
   \<and> postulaciones ex_store = [ex_row_old, ex_row_new]
   \<and> fst (descargar_postulaciones ex_toLocaleString ex_parse ex_extern ex_store)
       = send 200
           (0xFEFF #
            ex_parse [lit ''Nombre'', lit ''Correo'', lit ''Tel'' @ [0xE9] @ lit ''fono'',
                      lit ''Cargo'', lit ''Mensaje'', lit ''Archivo (Google Drive)'',
                      lit ''Fecha de Env'' @ [0xED] @ lit ''o'']
              (lit '';'')
              [[(lit ''Nombre'', JString (lit ''Luis'')),
                (lit ''Correo'', JString (lit ''luis@x.com'')),
                (lit ''Tel'' @ [0xE9] @ lit ''fono'', JString (lit ''3110000000'')),
                (lit ''Cargo'', JString (lit ''Mesero'')),
                (lit ''Mensaje'', JString (lit ''Hola'')),
                (lit ''Archivo (Google Drive)'',
                 JString (lit ''https://drive.google.com/file/d/d2/view'')),
                (lit ''Fecha de Env'' @ [0xED] @ lit ''o'',
                 JString (lit ''2024-02-01T08:00:00.000Z''))],
               [(lit ''Nombre'', JString (lit ''Ana'')),
                (lit ''Correo'', JString (lit ''ana@x.com'')),
                (lit ''Tel'' @ [0xE9] @ lit ''fono'', JString (lit ''3000000000'')),
                (lit ''Cargo'', JString (lit ''Cajera'')),
                (lit ''Mensaje'', JString []),
                (lit ''Archivo (Google Drive)'', JString []),
                (lit ''Fecha de Env'' @ [0xED] @ lit ''o'',
                 JString (lit ''2023-11-14T22:13:20.000Z''))]])"
proof -
  have ok: "execute_ok ex_extern"
    by (simp add: ex_extern_def)
  have empty: "postulaciones ex_world = []"
    and full: "postulaciones ex_store = [ex_row_old, ex_row_new]"
    by (simp_all add: ex_world_def ex_store_def)
  have cells: "map (\<lambda>c. col ex_row_new c)
                 [''nombre'', ''email'', ''telefono'', ''cargo'', ''mensaje'', ''archivo_url'',
                  ''fecha_envio'']
               = [JString (lit ''Luis''), JString (lit ''luis@x.com''),
                  JString (lit ''3110000000''), JString (lit ''Mesero''), JString (lit ''Hola''),
                  JString (lit ''https://drive.google.com/file/d/d2/view''),
                  JString (lit ''2024-02-01T08:00:00.000Z'')]"
    "map (\<lambda>c. col ex_row_old c)
                 [''nombre'', ''email'', ''telefono'', ''cargo'', ''mensaje'', ''archivo_url'',
                  ''fecha_envio'']
               = [JString (lit ''Ana''), JString (lit ''ana@x.com''),
                  JString (lit ''3000000000''), JString (lit ''Cajera''), JString [],
                  JString [], JString (lit ''2023-11-14T22:13:20.000Z'')]"
    by (simp_all add: col_def ex_row_new_def ex_row_old_def)
  show ?thesis
    using ok export_csv [OF ok, of ex_world ex_toLocaleString ex_parse]
          export_csv [OF ok, of ex_store ex_toLocaleString ex_parse]
          descargar_postulaciones_ok [OF ok, of ex_toLocaleString ex_parse ex_store]
          empty full ex_order cells
    by (simp add: dataLimpia_def ex_toLocaleString_def)
qed

section \<open>The rate limiter\<close>




lemma rate_limit_eq:
  "rate_limit m req h =
     (if hit_count h (limiter_key m req) < 60 then Next else Throttled,
      h(limiter_key m req \<mapsto> hit_count h (limiter_key m req) + 1))"
  by (auto simp: rate_limit_def Let_def)

text \<open>
  One request through variant 1: the counter of its key goes up by one whatever happens
  next, and the routes are reached only while the counter was below 60 before.
\<close>

lemma app_v1_eq:
  "app_v1 cfg ora rt req w =
     (if hit_count (hits w) (limiter_key (minutes_now ora) req) < 60
      then routes_v1 cfg ora rt req
             (w\<lparr>hits := (hits w)(limiter_key (minutes_now ora) req \<mapsto>
                            hit_count (hits w) (limiter_key (minutes_now ora) req) + 1)\<rparr>)
      else (Responded too_many,
            w\<lparr>hits := (hits w)(limiter_key (minutes_now ora) req \<mapsto>
                            hit_count (hits w) (limiter_key (minutes_now ora) req) + 1)\<rparr>))"
  by (simp add: app_v1_def rate_limit_eq)


text \<open>Nor does a request through the whole of variant 1 ever call the storage gateway.\<close>

lemma app_v1_never_uploads:
  "list_all (\<lambda>e. \<not> is_drive_call (call_of e)) (new_events w (snd (app_v1 cfg ora rt req w)))"
proof -
  let ?w = "w\<lparr>hits := (hits w)(limiter_key (minutes_now ora) req \<mapsto>
                  hit_count (hits w) (limiter_key (minutes_now ora) req) + 1)\<rparr>"
  have same: "new_events w x = new_events ?w x" for x
    by (simp add: new_events_def)
  show ?thesis
  proof (cases "hit_count (hits w) (limiter_key (minutes_now ora) req) < 60")
    case True
    then have "app_v1 cfg ora rt req w = routes_v1 cfg ora rt req ?w"
      by (simp add: app_v1_eq)
    then show ?thesis
      using routes_v1_never_uploads [of ?w cfg ora rt req] by (simp only: same)
  next
    case False
    then have "snd (app_v1 cfg ora rt req w) = ?w"
      by (simp add: app_v1_eq)
    then show ?thesis by (simp add: new_events_def)
  qed
qed













end
